theory Spec2Isabelle
  imports Complex_Main "HOL-Library.Word"
begin

unbundle bit_operations_syntax

section \<open>ShapeMaster: hand tracking and drawing score\<close>

text \<open>
  A shallow embedding of \<^verbatim>\<open>ShapeMaster.py\<close>. Pixels are 8-bit words, rasters are
  lists of rows, contour points are pairs of integers, and the floating point values of
  the source (distances, areas, scores) are real numbers.
\<close>

subsection \<open>Points and distances\<close>

type_synonym point = "int \<times> int"

text \<open>\<^verbatim>\<open>np.hypot(dx, dy)\<close> on integer coordinates.\<close>

definition hypot :: "int \<Rightarrow> int \<Rightarrow> real" where
  "hypot dx dy = sqrt (real_of_int (dx * dx + dy * dy))"

subsection \<open>\<^verbatim>\<open>merge_close_points\<close>\<close>

text \<open>
  The inner loop over \<^verbatim>\<open>enumerate(merged)\<close>: the first cluster closer than the
  threshold is replaced by its integer midpoint with the new point and the loop breaks;
  \<open>None\<close> is \<^verbatim>\<open>found_close = False\<close>.
\<close>

fun fold_close :: "real \<Rightarrow> point \<Rightarrow> point list \<Rightarrow> point list option" where
  "fold_close thr pt [] = None"
| "fold_close thr pt (mp # rest) =
     (if hypot (fst pt - fst mp) (snd pt - snd mp) < thr
      then Some (((fst pt + fst mp) div 2, (snd pt + snd mp) div 2) # rest)
      else map_option ((#) mp) (fold_close thr pt rest))"

definition merge_step :: "real \<Rightarrow> point list \<Rightarrow> point \<Rightarrow> point list" where
  "merge_step thr merged pt =
     (if merged = [] then [pt]
      else case fold_close thr pt merged of
             Some merged' \<Rightarrow> merged'
           | None \<Rightarrow> merged @ [pt])"

definition merge_close_points :: "real \<Rightarrow> point list \<Rightarrow> point list" where
  "merge_close_points distance_threshold points = foldl (merge_step distance_threshold) [] points"

subsection \<open>Rasters\<close>

text \<open>
  A single-channel \<^verbatim>\<open>uint8\<close> array of shape (rows, columns) is a list of rows of
  equal length. The errors that the modelled code can raise are values.
\<close>

type_synonym u8 = "8 word"
type_synonym mask = "u8 list list"

datatype error = IndexError | ValueError | TypeError | ZeroDivisionError | CvError

subsection \<open>\<^verbatim>\<open>cut_forearm_automatically\<close>\<close>

text \<open>
  The inner loop over \<^verbatim>\<open>range(x, x + w)\<close> of one row: \<^verbatim>\<open>left\<close> is the first and
  \<^verbatim>\<open>right\<close> the last non-zero column, the width is \<^verbatim>\<open>right - left + 1\<close>, or 0
  for a row without a non-zero pixel.
\<close>

definition row_width :: "u8 list \<Rightarrow> nat \<Rightarrow> nat \<Rightarrow> nat" where
  "row_width row x w =
     (let cols = filter (\<lambda>col_i. row ! col_i \<noteq> 0) [x..<x + w]
      in if cols = [] then 0 else last cols - hd cols + 1)"

text \<open>Rows are visited from \<^verbatim>\<open>y + h - 1\<close> down to \<^verbatim>\<open>y\<close>.\<close>

definition row_widths :: "mask \<Rightarrow> nat \<Rightarrow> nat \<Rightarrow> nat \<Rightarrow> nat \<Rightarrow> nat list" where
  "row_widths m x y w h = map (\<lambda>row_i. row_width (m ! row_i) x w) (rev [y..<y + h])"

text \<open>
  The second loop, \<^verbatim>\<open>for i in range(1, len(row_widths))\<close>, started at index \<open>i\<close> with
  the running \<^verbatim>\<open>consecutive_count\<close> and the previous width; the result is the index
  at which the function cuts, if it does.
\<close>

fun scan_rows :: "real \<Rightarrow> int \<Rightarrow> nat list \<Rightarrow> nat \<Rightarrow> int \<Rightarrow> nat \<Rightarrow> nat option" where
  "scan_rows min_ratio consecutive_rows [] i consecutive_count w_prev = None"
| "scan_rows min_ratio consecutive_rows (w_curr # rest) i consecutive_count w_prev =
     (let count' = (if w_prev > 0 \<and> real w_curr < min_ratio * real w_prev
                    then consecutive_count + 1 else 0)
      in if count' \<ge> consecutive_rows then Some i
         else scan_rows min_ratio consecutive_rows rest (Suc i) count' w_curr)"

definition find_cut :: "real \<Rightarrow> int \<Rightarrow> nat list \<Rightarrow> nat option" where
  "find_cut min_ratio consecutive_rows widths =
     (case widths of
        [] \<Rightarrow> None
      | w0 # rest \<Rightarrow> scan_rows min_ratio consecutive_rows rest 1 0 w0)"

text \<open>The slice assignment \<^verbatim>\<open>mask[r0:r1, c0:c1] = 0\<close>.\<close>

definition zero_block :: "mask \<Rightarrow> nat \<Rightarrow> nat \<Rightarrow> nat \<Rightarrow> nat \<Rightarrow> mask" where
  "zero_block m r0 r1 c0 c1 =
     map (\<lambda>r. if r0 \<le> r \<and> r < r1
              then map (\<lambda>c. if c0 \<le> c \<and> c < c1 then 0 else m ! r ! c) [0..<length (m ! r)]
              else m ! r)
         [0..<length m]"

text \<open>
  The bounding box lies inside the raster; otherwise the first read outside of it raises
  \<^verbatim>\<open>IndexError\<close>. The box is the result of \<^verbatim>\<open>cv2.boundingRect\<close>, whose components
  are never negative.
\<close>

definition box_inside :: "mask \<Rightarrow> nat \<Rightarrow> nat \<Rightarrow> nat \<Rightarrow> nat \<Rightarrow> bool" where
  "box_inside m x y w h \<longleftrightarrow>
     y + h \<le> length m \<and> (\<forall>r \<in> set [y..<y + h]. x + w \<le> length (m ! r))"

text \<open>The mask is changed in place by the source; the model returns the new mask.\<close>

definition cut_forearm_automatically ::
  "mask \<Rightarrow> nat \<Rightarrow> nat \<Rightarrow> nat \<Rightarrow> nat \<Rightarrow> real \<Rightarrow> int \<Rightarrow> error + (mask \<times> bool)" where
  "cut_forearm_automatically m x y w h min_ratio consecutive_rows =
     (if h < 10 then Inr (m, False)
      else if w > 0 \<and> \<not> box_inside m x y w h then Inl IndexError
      else case find_cut min_ratio consecutive_rows (row_widths m x y w h) of
             None \<Rightarrow> Inr (m, False)
           | Some i \<Rightarrow>
               (let row_cut = (y + h - 1) - i
                in Inr (zero_block m row_cut (y + h) x (x + w), True)))"

text \<open>
  The contraction the routine looks for, in words: the width at index \<open>i\<close> of the bottom-up
  profile is below \<open>ratio\<close> times the width at index \<open>i - 1\<close>; a cut point is an index
  at which this holds for the second time in a row.
\<close>

definition contracts :: "real \<Rightarrow> nat list \<Rightarrow> nat \<Rightarrow> bool" where
  "contracts ratio ws i \<longleftrightarrow>
     0 < i \<and> i < length ws \<and> real (ws ! i) < ratio * real (ws ! (i - 1))"

definition cut_point :: "real \<Rightarrow> nat list \<Rightarrow> nat \<Rightarrow> bool" where
  "cut_point ratio ws i \<longleftrightarrow> contracts ratio ws (i - 1) \<and> contracts ratio ws i"

definition first_cut_point :: "real \<Rightarrow> nat list \<Rightarrow> nat option" where
  "first_cut_point ratio ws = find (cut_point ratio ws) [0..<length ws]"

text \<open>
  The width profile in words: the filled span of a row is the number of columns from its
  first to its last non-zero pixel among the columns of the box, and 0 for a row without
  such a pixel; the profile lists the spans of the rows of the box from the bottom row up.
\<close>

definition filled_columns :: "mask \<Rightarrow> nat \<Rightarrow> nat \<Rightarrow> nat \<Rightarrow> nat set" where
  "filled_columns m r x w = {c \<in> {x..<x + w}. m ! r ! c \<noteq> 0}"

definition span_width :: "mask \<Rightarrow> nat \<Rightarrow> nat \<Rightarrow> nat \<Rightarrow> nat" where
  "span_width m r x w =
     (if filled_columns m r x w = {} then 0
      else Max (filled_columns m r x w) - Min (filled_columns m r x w) + 1)"

definition width_profile :: "mask \<Rightarrow> nat \<Rightarrow> nat \<Rightarrow> nat \<Rightarrow> nat \<Rightarrow> nat list" where
  "width_profile m x y w h = map (\<lambda>i. span_width m (y + h - 1 - i) x w) [0..<h]"

subsection \<open>Library operations on rasters\<close>

text \<open>
  The OpenCV and NumPy calls of the source are modelled by their documented meaning where
  that is elementary (thresholds, bitwise operations, dilation, sums). The calls whose
  result depends on the library's algorithms are fields of a record of library functions
  that the modelled code receives; the theorems hold for every such record.
\<close>

type_synonym bgr = "u8 \<times> u8 \<times> u8"

text \<open>
  \<^verbatim>\<open>cv2.cvtColor\<close> works pixel by pixel; the three conversions are functions on one
  pixel. \<open>np_weak_promotion\<close> tells whether a Python integer combined with a NumPy
  \<^verbatim>\<open>uint8\<close> scalar yields a \<^verbatim>\<open>uint8\<close> (NumPy 2) or a 64-bit integer (NumPy 1).
  The other fields are the calls of \<^verbatim>\<open>detect_hand\<close> with the constant arguments of the
  source: \<open>Sobel_magnitude\<close> is the clipped 8-bit magnitude of the two Sobel gradients,
  the morphological operations use the 3 by 3 element, \<open>line\<close> draws with 255 and
  thickness 3, \<open>rectangle\<close> fills with 0, \<open>detectMultiScale\<close> is the face cascade,
  \<open>findContours\<close> yields the external contours with simple chain approximation,
  \<open>drawContours\<close> fills one contour with 255, \<open>convexHull\<close> yields indices into the
  contour, a convexity defect is (start index, end index, far index, depth), and
  \<open>moments\<close> yields the moments m00, m10 and m01 of a contour.
\<close>

record cvlib =
  cvtColor_BGR2GRAY :: "bgr \<Rightarrow> u8"
  cvtColor_BGR2HSV :: "bgr \<Rightarrow> u8 \<times> u8 \<times> u8"
  cvtColor_BGR2YCrCb :: "bgr \<Rightarrow> u8 \<times> u8 \<times> u8"
  getStructuringElement_ELLIPSE :: "nat \<Rightarrow> mask"
  np_weak_promotion :: bool
  Canny :: "mask \<Rightarrow> nat \<Rightarrow> nat \<Rightarrow> mask"
  Sobel_magnitude :: "mask \<Rightarrow> mask"
  morphologyEx_OPEN :: "mask \<Rightarrow> nat \<Rightarrow> mask"
  morphologyEx_CLOSE :: "mask \<Rightarrow> nat \<Rightarrow> mask"
  line :: "mask \<Rightarrow> int \<times> int \<Rightarrow> int \<times> int \<Rightarrow> mask"
  rectangle :: "mask \<Rightarrow> int \<times> int \<Rightarrow> int \<times> int \<Rightarrow> mask"
  detectMultiScale :: "mask \<Rightarrow> (int \<times> int \<times> int \<times> int) list"
  findContours :: "mask \<Rightarrow> (int \<times> int) list list"
  drawContours :: "mask \<Rightarrow> (int \<times> int) list \<Rightarrow> mask"
  convexHull :: "(int \<times> int) list \<Rightarrow> nat list"
  convexityDefects :: "(int \<times> int) list \<Rightarrow> nat list \<Rightarrow> (nat \<times> nat \<times> nat \<times> int) list option"
  moments :: "(int \<times> int) list \<Rightarrow> real \<times> real \<times> real"

text \<open>An image of the source has two or three axes (\<^verbatim>\<open>len(img.shape)\<close>).\<close>

datatype image = Gray mask | BGR "bgr list list"

definition raster :: "'a list list \<Rightarrow> bool" where
  "raster m \<longleftrightarrow> (\<forall>row \<in> set m. length row = length (hd m))"

definition shape :: "'a list list \<Rightarrow> nat \<times> nat" where
  "shape m = (length m, if m = [] then 0 else length (hd m))"

definition bitwise_not :: "mask \<Rightarrow> mask" where
  "bitwise_not m = map (map (\<lambda>v. NOT v)) m"

text \<open>\<^verbatim>\<open>cv2.threshold(src, thresh, maxval, cv2.THRESH_BINARY_INV)\<close> and \<^verbatim>\<open>THRESH_BINARY\<close>.\<close>

definition threshold_BINARY_INV :: "mask \<Rightarrow> u8 \<Rightarrow> u8 \<Rightarrow> mask" where
  "threshold_BINARY_INV m thresh maxval = map (map (\<lambda>v. if v > thresh then 0 else maxval)) m"

definition threshold_BINARY :: "mask \<Rightarrow> u8 \<Rightarrow> u8 \<Rightarrow> mask" where
  "threshold_BINARY m thresh maxval = map (map (\<lambda>v. if v > thresh then maxval else 0)) m"

text \<open>
  \<^verbatim>\<open>cv2.dilate\<close>: every pixel becomes the maximum of the source pixels under the non-zero
  elements of the structuring element, whose anchor is its centre; positions outside of
  the raster do not take part. The given number of iterations repeats this.
\<close>

definition kernel_offsets :: "mask \<Rightarrow> (int \<times> int) list" where
  "kernel_offsets k =
     concat (map (\<lambda>i. map (\<lambda>j. (int i - int (length k div 2), int j - int (length (k ! i) div 2)))
                           (filter (\<lambda>j. k ! i ! j \<noteq> 0) [0..<length (k ! i)]))
                 [0..<length k])"

definition pixel_at :: "mask \<Rightarrow> int \<Rightarrow> int \<Rightarrow> u8 option" where
  "pixel_at m r c =
     (if 0 \<le> r \<and> r < int (length m) \<and> 0 \<le> c \<and> c < int (length (m ! nat r))
      then Some (m ! nat r ! nat c) else None)"

definition dilate1 :: "(int \<times> int) list \<Rightarrow> mask \<Rightarrow> mask" where
  "dilate1 offs m =
     map (\<lambda>r. map (\<lambda>c. foldr max
                          (List.map_filter (\<lambda>(dr, dc). pixel_at m (int r + dr) (int c + dc)) offs) 0)
                   [0..<length (m ! r)])
         [0..<length m]"

definition dilate :: "mask \<Rightarrow> mask \<Rightarrow> nat \<Rightarrow> mask" where
  "dilate m element iterations = (dilate1 (kernel_offsets element) ^^ iterations) m"

text \<open>
  An elementwise NumPy operation on two arrays with two axes. An axis of extent 1 is
  stretched to the extent of the other array; other differences raise \<^verbatim>\<open>ValueError\<close>.
\<close>

definition broadcast_dim :: "nat \<Rightarrow> nat \<Rightarrow> nat option" where
  "broadcast_dim a b =
     (if a = b then Some a else if a = 1 then Some b else if b = 1 then Some a else None)"

definition stretch :: "nat \<Rightarrow> 'a list \<Rightarrow> 'a list" where
  "stretch n xs = (if length xs = n then xs else replicate n (hd xs))"

definition np_elementwise ::
  "('a \<Rightarrow> 'b \<Rightarrow> 'c) \<Rightarrow> 'a list list \<Rightarrow> 'b list list \<Rightarrow> error + 'c list list" where
  "np_elementwise f a b =
     (case (broadcast_dim (fst (shape a)) (fst (shape b)),
            broadcast_dim (snd (shape a)) (snd (shape b))) of
        (Some h, Some w) \<Rightarrow>
          Inr (map2 (\<lambda>ra rb. map2 f (stretch w ra) (stretch w rb)) (stretch h a) (stretch h b))
      | _ \<Rightarrow> Inl ValueError)"

text \<open>\<^verbatim>\<open>np.sum\<close> of a Boolean array.\<close>

definition np_sum :: "bool list list \<Rightarrow> nat" where
  "np_sum m = sum_list (map (\<lambda>row. length (filter id row)) m)"

text \<open>Python's division of two floats raises \<^verbatim>\<open>ZeroDivisionError\<close> for the divisor 0.\<close>

definition py_truediv :: "real \<Rightarrow> real \<Rightarrow> error + real" where
  "py_truediv a b = (if b = 0 then Inl ZeroDivisionError else Inr (a / b))"

definition image_raster :: "image \<Rightarrow> bool" where
  "image_raster img = (case img of Gray m \<Rightarrow> raster m | BGR m \<Rightarrow> raster m)"

definition image_shape :: "image \<Rightarrow> nat \<times> nat" where
  "image_shape img = (case img of Gray m \<Rightarrow> shape m | BGR m \<Rightarrow> shape m)"

subsection \<open>\<^verbatim>\<open>correlation_score\<close>\<close>

definition to_gray :: "cvlib \<Rightarrow> image \<Rightarrow> mask" where
  "to_gray cv img = (case img of Gray m \<Rightarrow> m | BGR m \<Rightarrow> map (map (cvtColor_BGR2GRAY cv)) m)"

text \<open>Lines 179 and 180: the sizes of the overlap and of the union of two dilated masks.\<close>

definition overlap_union :: "mask \<Rightarrow> mask \<Rightarrow> error + (nat \<times> nat)" where
  "overlap_union user_dil ref_dil =
     (case np_elementwise (\<lambda>a b. a = 255 \<and> b = 255) user_dil ref_dil of
        Inl e \<Rightarrow> Inl e
      | Inr both \<Rightarrow>
          (case np_elementwise (\<lambda>a b. a = 255 \<or> b = 255) user_dil ref_dil of
             Inl e \<Rightarrow> Inl e
           | Inr either \<Rightarrow> Inr (np_sum both, np_sum either)))"

definition correlation_score ::
  "cvlib \<Rightarrow> image \<Rightarrow> image \<Rightarrow> nat \<Rightarrow> real \<Rightarrow> nat \<Rightarrow> error + (real \<times> mask \<times> mask \<times> mask \<times> mask)" where
  "correlation_score cv user_img ref_img dilation_size factor iter =
     (let user_gray = to_gray cv user_img;
          ref_gray = bitwise_not (to_gray cv ref_img);
          user_bin = threshold_BINARY_INV user_gray 127 255;
          ref_bin = threshold_BINARY_INV ref_gray 127 255;
          user_kernel = getStructuringElement_ELLIPSE cv dilation_size;
          ref_kernel = getStructuringElement_ELLIPSE cv dilation_size;
          user_dil = dilate user_bin user_kernel iter;
          ref_dil = dilate ref_bin ref_kernel iter
      in case overlap_union user_dil ref_dil of
           Inl e \<Rightarrow> Inl e
         | Inr (overlap, union') \<Rightarrow>
             (case (if union' = 0 then Inr 0 else py_truediv (real overlap) (real union')) of
                Inl e \<Rightarrow> Inl e
              | Inr accuracy \<Rightarrow>
                  (let accuracy_percent = accuracy * 100;
                       final_score = min (accuracy_percent * factor) 100
                   in Inr (final_score, user_dil, ref_dil, user_bin, ref_bin))))"

text \<open>The default arguments: \<^verbatim>\<open>dilation_size=10, factor=1.1, iter=6\<close>.\<close>

definition correlation_score_default ::
  "cvlib \<Rightarrow> image \<Rightarrow> image \<Rightarrow> error + (real \<times> mask \<times> mask \<times> mask \<times> mask)" where
  "correlation_score_default cv user_img ref_img = correlation_score cv user_img ref_img 10 (11 / 10) 6"

text \<open>
  Two shapes that NumPy can combine elementwise: along each axis the extents are equal or
  one of them is 1. An image has pixels when neither extent is 0.
\<close>

definition broadcastable :: "nat \<times> nat \<Rightarrow> nat \<times> nat \<Rightarrow> bool" where
  "broadcastable s t \<longleftrightarrow>
     (fst s = fst t \<or> fst s = 1 \<or> fst t = 1) \<and> (snd s = snd t \<or> snd s = 1 \<or> snd t = 1)"


subsection \<open>Skin colour calibration\<close>

text \<open>Python slicing \<^verbatim>\<open>xs[a:b]\<close>: a negative index counts from the end, and both ends are clipped.\<close>

definition py_index :: "nat \<Rightarrow> int \<Rightarrow> nat" where
  "py_index n i = (if i < 0 then nat (max 0 (int n + i)) else min n (nat i))"

definition py_slice :: "'a list \<Rightarrow> int \<Rightarrow> int \<Rightarrow> 'a list" where
  "py_slice xs a b =
     (let lo = py_index (length xs) a; hi = py_index (length xs) b
      in take (hi - lo) (drop lo xs))"

text \<open>\<^verbatim>\<open>frame[y1:y2, x1:x2]\<close>.\<close>

definition crop :: "'a list list \<Rightarrow> int \<Rightarrow> int \<Rightarrow> int \<Rightarrow> int \<Rightarrow> 'a list list" where
  "crop frame y1 y2 x1 x2 = map (\<lambda>row. py_slice row x1 x2) (py_slice frame y1 y2)"

text \<open>\<^verbatim>\<open>np.mean\<close>, \<^verbatim>\<open>np.std\<close> and Python's \<^verbatim>\<open>int\<close> of a float.\<close>

definition np_mean :: "real list \<Rightarrow> real" where
  "np_mean xs = sum_list xs / real (length xs)"

definition np_std :: "real list \<Rightarrow> real" where
  "np_std xs = sqrt (np_mean (map (\<lambda>x. (x - np_mean xs) ^ 2) xs))"

definition py_int :: "real \<Rightarrow> int" where
  "py_int x = (if 0 \<le> x then \<lfloor>x\<rfloor> else \<lceil>x\<rceil>)"

text \<open>
  \<^verbatim>\<open>cv2.calcHist(..., [180], [0, 180])\<close> of one channel counts the values 0 to 179;
  \<^verbatim>\<open>np.argmax\<close> is the first index of the greatest count.
\<close>

definition calcHist_180 :: "u8 list \<Rightarrow> nat list" where
  "calcHist_180 vs = map (\<lambda>i. length (filter (\<lambda>v. unat v = i) vs)) [0..<180]"

definition np_argmax :: "nat list \<Rightarrow> nat" where
  "np_argmax xs = length (takeWhile (\<lambda>x. x \<noteq> Max (set xs)) xs)"

text \<open>The statistics of a sampled region (lines 336 to 348 and 370 to 381).\<close>

record sample_stats =
  peak_hue :: int
  std_dev_hsv :: int
  cr_mean :: int
  cb_mean :: int
  std_dev_crcb :: int

definition u8_real :: "u8 \<Rightarrow> real" where
  "u8_real v = real (unat v)"

definition region_stats :: "cvlib \<Rightarrow> bgr list list \<Rightarrow> sample_stats" where
  "region_stats cv region =
     (let hsv_region = concat (map (map (cvtColor_BGR2HSV cv)) region);
          hues = map fst hsv_region;
          hist_hsv = calcHist_180 hues;
          ycrcb_region = concat (map (map (cvtColor_BGR2YCrCb cv)) region)
      in \<lparr> peak_hue = int (np_argmax hist_hsv),
           std_dev_hsv = py_int (np_std (map u8_real hues)),
           cr_mean = py_int (np_mean (map (\<lambda>(y, cr, cb). u8_real cr) ycrcb_region)),
           cb_mean = py_int (np_mean (map (\<lambda>(y, cr, cb). u8_real cb) ycrcb_region)),
           std_dev_crcb = py_int (np_std (concat (map (\<lambda>(y, cr, cb). [u8_real cr, u8_real cb])
                                                     ycrcb_region))) \<rparr>)"

text \<open>
  The four bound triples before they are stored (lines 341, 342, 350, 351 and 375 to 385),
  and \<^verbatim>\<open>np.array(..., dtype=np.uint8)\<close>, which keeps the low 8 bits.
\<close>

definition hsv_bounds :: "sample_stats \<Rightarrow> (int \<times> int \<times> int) \<times> (int \<times> int \<times> int)" where
  "hsv_bounds s =
     ((max 0 (peak_hue s - 2 * std_dev_hsv s), 30, 60),
      (min 180 (peak_hue s + 2 * std_dev_hsv s), 255, 255))"

definition ycrcb_bounds :: "sample_stats \<Rightarrow> (int \<times> int \<times> int) \<times> (int \<times> int \<times> int)" where
  "ycrcb_bounds s =
     ((0, max 133 (cr_mean s - std_dev_crcb s), max 77 (cb_mean s - std_dev_crcb s)),
      (255, min 173 (cr_mean s + std_dev_crcb s), min 127 (cb_mean s + std_dev_crcb s)))"

definition np_uint8 :: "int \<times> int \<times> int \<Rightarrow> u8 \<times> u8 \<times> u8" where
  "np_uint8 = (\<lambda>(a, b, c). (word_of_int a, word_of_int b, word_of_int c))"

text \<open>The four global variables that hold the committed ranges.\<close>

record skin_ranges =
  lower_skin_hsv :: "u8 \<times> u8 \<times> u8"
  upper_skin_hsv :: "u8 \<times> u8 \<times> u8"
  lower_skin_ycrcb :: "u8 \<times> u8 \<times> u8"
  upper_skin_ycrcb :: "u8 \<times> u8 \<times> u8"

definition new_ranges :: "sample_stats \<Rightarrow> skin_ranges" where
  "new_ranges s =
     \<lparr> lower_skin_hsv = np_uint8 (fst (hsv_bounds s)),
       upper_skin_hsv = np_uint8 (snd (hsv_bounds s)),
       lower_skin_ycrcb = np_uint8 (fst (ycrcb_bounds s)),
       upper_skin_ycrcb = np_uint8 (snd (ycrcb_bounds s)) \<rparr>"

definition width :: "'a list list \<Rightarrow> nat" where
  "width frame = (if frame = [] then 0 else length (hd frame))"

definition empty_region :: "'a list list \<Rightarrow> bool" where
  "empty_region region \<longleftrightarrow> region = [] \<or> width region = 0"

text \<open>
  \<^verbatim>\<open>calibrate_skin_color\<close>: the ranges of the 25 by 25 region at the centre of the frame.
  \<^verbatim>\<open>cv2.cvtColor\<close> raises an error for an empty region. The caller (lines 825 to 830 of
  \<^verbatim>\<open>run_stage\<close>) stores the four triples in the global variables.
\<close>

definition center_region :: "bgr list list \<Rightarrow> bgr list list" where
  "center_region frame =
     (let h = int (length frame); w = int (width frame);
          x1 = w div 2 - 12; y1 = h div 2 - 12;
          x2 = w div 2 + 13; y2 = h div 2 + 13
      in crop frame y1 y2 x1 x2)"

definition calibrate_skin_color ::
  "cvlib \<Rightarrow> bgr list list \<Rightarrow> error + (skin_ranges \<times> bgr list list)" where
  "calibrate_skin_color cv frame =
     (let region = center_region frame
      in if empty_region region then Inl CvError
         else Inr (new_ranges (region_stats cv region), frame))"

text \<open>
  The drift test of \<^verbatim>\<open>auto_calibrate_skin_color\<close> (lines 388 to 398). The stored bounds
  are \<^verbatim>\<open>uint8\<close> scalars, so their sum is taken modulo 256 before it is halved. The peak
  hue is a 64-bit integer from \<^verbatim>\<open>np.argmax\<close>; the chroma means are Python integers, whose
  difference with a \<^verbatim>\<open>uint8\<close> scalar follows the promotion rule of the NumPy version.
\<close>

definition scalar_diff :: "bool \<Rightarrow> int \<Rightarrow> u8 \<Rightarrow> int" where
  "scalar_diff weak x old = (if weak then uint (word_of_int x - old) else \<bar>x - uint old\<bar>)"

definition drift_rejected :: "cvlib \<Rightarrow> skin_ranges \<Rightarrow> sample_stats \<Rightarrow> bool" where
  "drift_rejected cv old s =
     (let old_hue = (fst (lower_skin_hsv old) + fst (upper_skin_hsv old)) div 2;
          old_cr = (fst (snd (lower_skin_ycrcb old)) + fst (snd (upper_skin_ycrcb old))) div 2;
          old_cb = (snd (snd (lower_skin_ycrcb old)) + snd (snd (upper_skin_ycrcb old))) div 2;
          TH = 40;
          diff_hue = \<bar>peak_hue s - uint old_hue\<bar>;
          diff_cr = scalar_diff (np_weak_promotion cv) (cr_mean s) old_cr;
          diff_cb = scalar_diff (np_weak_promotion cv) (cb_mean s) old_cb
      in diff_hue > TH \<or> diff_cr > TH \<or> diff_cb > TH)"

text \<open>
  \<^verbatim>\<open>auto_calibrate_skin_color\<close>: the committed ranges are read and written through the
  global variables, \<open>None\<close> before the first calibration; the result is the new content
  of the variables and the sampled box.
\<close>

definition sampled_box :: "bgr list list \<Rightarrow> int \<Rightarrow> int \<Rightarrow> int \<Rightarrow> int \<times> int \<times> int \<times> int" where
  "sampled_box frame cx cy box_size =
     (let h = int (length frame); w = int (width frame);
          x1 = max (cx - box_size div 2) 0;
          y1 = max (cy - box_size div 2) 0;
          x2 = min (cx + box_size div 2) (w - 1);
          y2 = min (cy + box_size div 2) (h - 1)
      in (x1, y1, x2, y2))"

definition auto_region :: "bgr list list \<Rightarrow> int \<Rightarrow> int \<Rightarrow> int \<Rightarrow> bgr list list" where
  "auto_region frame cx cy box_size =
     (case sampled_box frame cx cy box_size of (x1, y1, x2, y2) \<Rightarrow> crop frame y1 y2 x1 x2)"

definition auto_calibrate_skin_color ::
  "cvlib \<Rightarrow> skin_ranges option \<Rightarrow> bgr list list \<Rightarrow> int \<Rightarrow> int \<Rightarrow> int \<Rightarrow>
   error + (skin_ranges option \<times> (int \<times> int \<times> int \<times> int))" where
  "auto_calibrate_skin_color cv stored frame cx cy box_size =
     (let region = auto_region frame cx cy box_size
      in if empty_region region then Inl CvError
         else (let s = region_stats cv region
               in case stored of
                    None \<Rightarrow> Inl TypeError
                  | Some old \<Rightarrow>
                      if drift_rejected cv old s
                      then Inr (Some old, sampled_box frame cx cy box_size)
                      else Inr (Some (new_ranges s), sampled_box frame cx cy box_size)))"

text \<open>The integer values of a stored triple.\<close>

definition ints :: "u8 \<times> u8 \<times> u8 \<Rightarrow> int \<times> int \<times> int" where
  "ints = (\<lambda>(a, b, c). (uint a, uint b, uint c))"

text \<open>
  The drift test in the words of the specification: the sampled peak hue or a sampled
  chroma mean is more than 40 away from the midpoint of the committed range.
\<close>

definition midpoint_drift :: "skin_ranges \<Rightarrow> sample_stats \<Rightarrow> bool" where
  "midpoint_drift old s =
     (case (ints (lower_skin_hsv old), ints (upper_skin_hsv old),
            ints (lower_skin_ycrcb old), ints (upper_skin_ycrcb old)) of
        ((lh, ls, lv), (uh, us, uv), (ly, lcr, lcb), (uy, ucr, ucb)) \<Rightarrow>
          \<bar>peak_hue s - (lh + uh) div 2\<bar> > 40 \<or>
          \<bar>cr_mean s - (lcr + ucr) div 2\<bar> > 40 \<or>
          \<bar>cb_mean s - (lcb + ucb) div 2\<bar> > 40)"

text \<open>
  What the statistics of a region that is not empty satisfy, and what the committed ranges
  satisfy: every bound is stored as computed, without loss of bits, the hue, saturation,
  value and luma bounds are ordered, the lower chroma bounds are clamped from below and
  the upper ones from above, and a chroma range is ordered exactly when the sampled
  interval around the mean meets the legal band.
\<close>

definition valid_stats :: "sample_stats \<Rightarrow> bool" where
  "valid_stats s \<longleftrightarrow>
     0 \<le> peak_hue s \<and> peak_hue s < 180 \<and> 0 \<le> std_dev_hsv s \<and>
     0 \<le> cr_mean s \<and> cr_mean s \<le> 255 \<and> 0 \<le> cb_mean s \<and> cb_mean s \<le> 255 \<and>
     0 \<le> std_dev_crcb s"

definition one_sided_ranges :: "skin_ranges \<Rightarrow> sample_stats \<Rightarrow> bool" where
  "one_sided_ranges rg s \<longleftrightarrow>
     ints (lower_skin_hsv rg) = fst (hsv_bounds s) \<and>
     ints (upper_skin_hsv rg) = snd (hsv_bounds s) \<and>
     ints (lower_skin_ycrcb rg) = fst (ycrcb_bounds s) \<and>
     ints (upper_skin_ycrcb rg) = snd (ycrcb_bounds s) \<and>
     (case (ints (lower_skin_hsv rg), ints (upper_skin_hsv rg),
            ints (lower_skin_ycrcb rg), ints (upper_skin_ycrcb rg)) of
        ((lh, ls, lv), (uh, us, uv), (ly, lcr, lcb), (uy, ucr, ucb)) \<Rightarrow>
          0 \<le> lh \<and> lh \<le> uh \<and> uh \<le> 180 \<and>
          ls = 30 \<and> us = 255 \<and> lv = 60 \<and> uv = 255 \<and> ly = 0 \<and> uy = 255 \<and>
          133 \<le> lcr \<and> ucr \<le> 173 \<and> 77 \<le> lcb \<and> ucb \<le> 127 \<and>
          (lcr \<le> ucr \<longleftrightarrow>
             133 \<le> cr_mean s + std_dev_crcb s \<and> cr_mean s - std_dev_crcb s \<le> 173) \<and>
          (lcb \<le> ucb \<longleftrightarrow>
             77 \<le> cb_mean s + std_dev_crcb s \<and> cb_mean s - std_dev_crcb s \<le> 127))"

subsection \<open>The colour mask of \<^verbatim>\<open>detect_hand\<close> (lines 453 to 460)\<close>

text \<open>\<^verbatim>\<open>cv2.inRange\<close> on a raster of three channels.\<close>

definition in_range :: "u8 \<times> u8 \<times> u8 \<Rightarrow> u8 \<times> u8 \<times> u8 \<Rightarrow> u8 \<times> u8 \<times> u8 \<Rightarrow> bool" where
  "in_range = (\<lambda>(a, b, c) (la, lb, lc) (ua, ub, uc).
     la \<le> a \<and> a \<le> ua \<and> lb \<le> b \<and> b \<le> ub \<and> lc \<le> c \<and> c \<le> uc)"

definition inRange ::
  "(u8 \<times> u8 \<times> u8) list list \<Rightarrow> u8 \<times> u8 \<times> u8 \<Rightarrow> u8 \<times> u8 \<times> u8 \<Rightarrow> mask" where
  "inRange src lowerb upperb = map (map (\<lambda>p. if in_range p lowerb upperb then 255 else 0)) src"

text \<open>
  \<^verbatim>\<open>cv2.addWeighted(src1, alpha, src2, beta, gamma)\<close> on 8-bit rasters: the weighted sum
  is rounded and saturated to 0 to 255.
\<close>

definition saturate_u8 :: "int \<Rightarrow> u8" where
  "saturate_u8 x = word_of_int (max 0 (min 255 x))"

definition addWeighted :: "mask \<Rightarrow> real \<Rightarrow> mask \<Rightarrow> real \<Rightarrow> real \<Rightarrow> mask" where
  "addWeighted src1 alpha src2 beta gamma =
     map2 (map2 (\<lambda>a b. saturate_u8 (round (u8_real a * alpha + u8_real b * beta + gamma)))) src1 src2"

definition skin_masks :: "cvlib \<Rightarrow> skin_ranges \<Rightarrow> bgr list list \<Rightarrow> mask \<times> mask" where
  "skin_masks cv rg frame_roi =
     (let hsv = map (map (cvtColor_BGR2HSV cv)) frame_roi;
          mask_hsv = inRange hsv (lower_skin_hsv rg) (upper_skin_hsv rg);
          ycrcb = map (map (cvtColor_BGR2YCrCb cv)) frame_roi;
          mask_ycrcb = inRange ycrcb (lower_skin_ycrcb rg) (upper_skin_ycrcb rg)
      in (mask_hsv, mask_ycrcb))"

definition skin_color_mask :: "cvlib \<Rightarrow> skin_ranges \<Rightarrow> bgr list list \<Rightarrow> mask" where
  "skin_color_mask cv rg frame_roi =
     (case skin_masks cv rg frame_roi of
        (mask_hsv, mask_ycrcb) \<Rightarrow>
          (let combined_mask = addWeighted mask_hsv 0.40 mask_ycrcb 0.60 0
           in threshold_BINARY combined_mask 50 255))"

text \<open>
  The fused mask in the words of the specification: the same blend, binarized at the
  midpoint 127 of the intensity range.
\<close>

definition midpoint_fused_mask :: "cvlib \<Rightarrow> skin_ranges \<Rightarrow> bgr list list \<Rightarrow> mask" where
  "midpoint_fused_mask cv rg frame_roi =
     (case skin_masks cv rg frame_roi of
        (mask_hsv, mask_ycrcb) \<Rightarrow>
          threshold_BINARY (addWeighted mask_hsv 0.40 mask_ycrcb 0.60 0) 127 255)"

subsection \<open>Contours\<close>

type_synonym contour = "point list"

text \<open>
  \<^verbatim>\<open>cv2.contourArea\<close>: the absolute value of the polygon area by Green's formula.
  \<^verbatim>\<open>cv2.boundingRect\<close>: the upright box of the points, as (x, y, width, height).
\<close>

definition contourArea :: "contour \<Rightarrow> real" where
  "contourArea c =
     (if c = [] then 0
      else \<bar>real_of_int (sum_list (map2 (\<lambda>(x1, y1) (x2, y2). x1 * y2 - x2 * y1) c (tl c @ [hd c])))\<bar> / 2)"

definition boundingRect :: "contour \<Rightarrow> int \<times> int \<times> int \<times> int" where
  "boundingRect c =
     (if c = [] then (0, 0, 0, 0)
      else (let xs = map fst c; ys = map snd c
            in (Min (set xs), Min (set ys),
                Max (set xs) - Min (set xs) + 1, Max (set ys) - Min (set ys) + 1)))"

text \<open>Python's \<^verbatim>\<open>max(xs, key=f)\<close> and \<^verbatim>\<open>min(xs, key=f)\<close>: the first extremal element.\<close>

definition py_max_by :: "('a \<Rightarrow> 'k::linorder) \<Rightarrow> 'a \<Rightarrow> 'a list \<Rightarrow> 'a" where
  "py_max_by key x xs = foldl (\<lambda>best y. if key y > key best then y else best) x xs"

definition py_min_by :: "('a \<Rightarrow> 'k::linorder) \<Rightarrow> 'a \<Rightarrow> 'a list \<Rightarrow> 'a" where
  "py_min_by key x xs = foldl (\<lambda>best y. if key y < key best then y else best) x xs"

subsection \<open>The Kalman filter\<close>

text \<open>
  The state of \<^verbatim>\<open>cv2.KalmanFilter(4, 2)\<close> with the matrices that \<^verbatim>\<open>init_kalman_filter\<close>
  sets. Vectors are lists, matrices are lists of rows, and the 32-bit floating point
  numbers of the library are real numbers.
\<close>

type_synonym vec = "real list"
type_synonym mat = "real list list"

definition mat_vec :: "mat \<Rightarrow> vec \<Rightarrow> vec" where
  "mat_vec m v = map (\<lambda>row. sum_list (map2 (*) row v)) m"

definition mat_mul :: "mat \<Rightarrow> mat \<Rightarrow> mat" where
  "mat_mul a b = map (\<lambda>row. map (\<lambda>col. sum_list (map2 (*) row col)) (transpose b)) a"

definition mat_add :: "mat \<Rightarrow> mat \<Rightarrow> mat" where
  "mat_add a b = map2 (map2 (+)) a b"

definition mat_sub :: "mat \<Rightarrow> mat \<Rightarrow> mat" where
  "mat_sub a b = map2 (map2 (-)) a b"

definition mat_inv2 :: "mat \<Rightarrow> mat" where
  "mat_inv2 m =
     (let a = m ! 0 ! 0; b = m ! 0 ! 1; c = m ! 1 ! 0; d = m ! 1 ! 1; det = a * d - b * c
      in [[d / det, - b / det], [- c / det, a / det]])"

definition eye :: "nat \<Rightarrow> mat" where
  "eye n = map (\<lambda>i. map (\<lambda>j. if i = j then 1 else 0) [0..<n]) [0..<n]"

definition scale :: "real \<Rightarrow> mat \<Rightarrow> mat" where
  "scale k m = map (map (\<lambda>x. x * k)) m"

record kalman_filter =
  transitionMatrix :: mat
  measurementMatrix :: mat
  processNoiseCov :: mat
  measurementNoiseCov :: mat
  statePre :: vec
  statePost :: vec
  errorCovPre :: mat
  errorCovPost :: mat

definition init_kalman_filter :: kalman_filter where
  "init_kalman_filter =
     \<lparr> transitionMatrix = [[1, 0, 1, 0], [0, 1, 0, 1], [0, 0, 1, 0], [0, 0, 0, 1]],
       measurementMatrix = [[1, 0, 0, 0], [0, 1, 0, 0]],
       processNoiseCov = scale (1 / 1000) (eye 4),
       measurementNoiseCov = scale (1 / 100) (eye 2),
       statePre = [0, 0, 0, 0],
       statePost = [0, 0, 0, 0],
       errorCovPre = replicate 4 (replicate 4 0),
       errorCovPost = eye 4 \<rparr>"

definition set_kalman_position :: "kalman_filter \<Rightarrow> real \<Rightarrow> real \<Rightarrow> kalman_filter" where
  "set_kalman_position kf x y = kf \<lparr> statePost := [x, y, 0, 0] \<rparr>"

text \<open>\<^verbatim>\<open>kf.predict()\<close> and \<^verbatim>\<open>kf.correct(measurement)\<close>; both return the new state vector.\<close>

definition kf_predict :: "kalman_filter \<Rightarrow> kalman_filter" where
  "kf_predict kf =
     (let a = transitionMatrix kf;
          pre = mat_vec a (statePost kf);
          cov = mat_add (mat_mul (mat_mul a (errorCovPost kf)) (transpose a)) (processNoiseCov kf)
      in kf \<lparr> statePre := pre, statePost := pre, errorCovPre := cov, errorCovPost := cov \<rparr>)"

definition kf_correct :: "kalman_filter \<Rightarrow> vec \<Rightarrow> kalman_filter" where
  "kf_correct kf z =
     (let h = measurementMatrix kf;
          temp2 = mat_mul h (errorCovPre kf);
          temp3 = mat_add (mat_mul temp2 (transpose h)) (measurementNoiseCov kf);
          gain = transpose (mat_mul (mat_inv2 temp3) temp2);
          temp5 = map2 (-) z (mat_vec h (statePre kf))
      in kf \<lparr> statePost := map2 (+) (statePre kf) (mat_vec gain temp5),
               errorCovPost := mat_sub (errorCovPre kf) (mat_mul gain temp2) \<rparr>)"

text \<open>
  \<^verbatim>\<open>update_kalman\<close>: the filter object is updated in place, so the model returns it with
  the position. The measurement is absent when one of its coordinates is \<^verbatim>\<open>None\<close>.
\<close>

definition update_kalman ::
  "kalman_filter \<Rightarrow> real option \<Rightarrow> real option \<Rightarrow> kalman_filter \<times> (real \<times> real)" where
  "update_kalman kf measured_x measured_y =
     (let kf1 = kf_predict kf;
          pred = statePre kf1;
          px = pred ! 0; py = pred ! 1
      in case (measured_x, measured_y) of
           (Some mx, Some my) \<Rightarrow>
             (let kf2 = kf_correct kf1 [mx, my];
                  corrected = statePost kf2
              in (kf2, (corrected ! 0, corrected ! 1)))
         | _ \<Rightarrow> (kf1, (px, py)))"

subsection \<open>Fingertip geometry\<close>

text \<open>\<^verbatim>\<open>angle_between_points\<close>, in degrees.\<close>

definition angle_between_points :: "point \<Rightarrow> point \<Rightarrow> point \<Rightarrow> real" where
  "angle_between_points a b c =
     (let ba = (fst a - fst b, snd a - snd b);
          bc = (fst c - fst b, snd c - snd b);
          dot = real_of_int (fst ba * fst bc + snd ba * snd bc);
          mag_ba = hypot (fst ba) (snd ba);
          mag_bc = hypot (fst bc) (snd bc);
          denom = mag_ba * mag_bc + 1 / 10 ^ 9;
          cos_angle = max (- 1) (min 1 (dot / denom))
      in arccos cos_angle * 180 / pi)"

text \<open>
  \<^verbatim>\<open>get_palm_center\<close>: the three moments come from \<^verbatim>\<open>cv2.moments\<close>, a library
  function of the contour.
\<close>

definition get_palm_center :: "cvlib \<Rightarrow> contour \<Rightarrow> point" where
  "get_palm_center cv c =
     (case moments cv c of
        (m00, m10, m01) \<Rightarrow>
          if m00 \<noteq> 0 then (py_int (m10 / m00), py_int (m01 / m00))
          else (case boundingRect c of (x, y, w, h) \<Rightarrow> (x + w div 2, y + h div 2)))"

text \<open>
  \<^verbatim>\<open>fallback_single_finger\<close>: the loop keeps the greatest distance seen and the first
  point that reaches it.
\<close>

definition farthest_step :: "point \<Rightarrow> real \<times> point option \<Rightarrow> point \<Rightarrow> real \<times> point option" where
  "farthest_step center acc pt =
     (case acc of
        (max_dist, best_point) \<Rightarrow>
          (let dist = hypot (fst pt - fst center) (snd pt - snd center)
           in if dist > max_dist then (dist, Some pt) else (max_dist, best_point)))"

definition fallback_single_finger :: "contour \<Rightarrow> point \<Rightarrow> real \<Rightarrow> point option" where
  "fallback_single_finger c center min_radius =
     (case foldl (farthest_step center) (0, None) c of
        (max_dist, best_point) \<Rightarrow>
          if best_point \<noteq> None \<and> max_dist > min_radius then best_point else None)"

subsection \<open>\<^verbatim>\<open>detect_hand\<close>\<close>

text \<open>The global variables that \<^verbatim>\<open>detect_hand\<close> reads and writes.\<close>

record tracker =
  skin :: "skin_ranges option"
  kalman :: kalman_filter
  smoothed_center :: "(real \<times> real) option"
  use_kalman :: bool

text \<open>
  The results of \<^verbatim>\<open>detect_hand\<close>. The debug image \<^verbatim>\<open>result\<close> and the drawing calls
  guarded by \<^verbatim>\<open>show_debug\<close> have no influence on the other results and are left out.
\<close>

record detection =
  color_mask :: mask
  edge_full_mask :: mask
  biggest_mask :: mask
  fingertips :: "point list"
  max_contour :: "contour option"

definition zeros_like :: "mask \<Rightarrow> mask" where
  "zeros_like m = map (map (\<lambda>_. 0)) m"

definition bitwise_or :: "mask \<Rightarrow> mask \<Rightarrow> mask" where
  "bitwise_or a b = map2 (map2 (OR)) a b"

definition bitwise_and :: "mask \<Rightarrow> mask \<Rightarrow> mask" where
  "bitwise_and a b = map2 (map2 (AND)) a b"

definition largest_contour :: "contour list \<Rightarrow> contour" where
  "largest_contour cs = py_max_by contourArea (hd cs) (tl cs)"

text \<open>Lines 453 to 511: the colour mask, the filled edge mask and the final mask.\<close>

definition hand_masks :: "cvlib \<Rightarrow> skin_ranges \<Rightarrow> bgr list list \<Rightarrow> mask \<times> mask \<times> mask" where
  "hand_masks cv rg frame_roi =
     (let color_mask = skin_color_mask cv rg frame_roi;
          c1 = findContours cv color_mask;
          box = (if c1 \<noteq> [] \<and> contourArea (largest_contour c1) > 500
                 then boundingRect (largest_contour c1) else (0, 0, 0, 0))
      in case box of
           (xR, yR, wR, hR) \<Rightarrow>
             (let gray = map (map (cvtColor_BGR2GRAY cv)) frame_roi;
                  edges_canny = Canny cv gray 50 150;
                  mag = Sobel_magnitude cv gray;
                  alpha = 0.6;
                  edge_integrated = addWeighted edges_canny alpha mag (1 - alpha) 0;
                  edge_mask_raw = threshold_BINARY edge_integrated 50 255;
                  edge_mask_closed = morphologyEx_CLOSE cv edge_mask_raw 1;
                  edge_mask_closed' =
                    (if wR > 0 \<and> hR > 0
                     then line cv edge_mask_closed (xR, yR + hR) (xR + wR, yR + hR)
                     else edge_mask_closed);
                  cont_edge = findContours cv edge_mask_closed';
                  edge_full_mask = foldl (drawContours cv) (zeros_like edge_mask_closed') cont_edge;
                  temp_mask = bitwise_or color_mask edge_full_mask;
                  temp_mask' = morphologyEx_OPEN cv temp_mask 2;
                  temp_mask'' = morphologyEx_CLOSE cv temp_mask' 2;
                  faces = detectMultiScale cv gray;
                  face_mask =
                    foldl (\<lambda>m (fx, fy, fw, fh).
                             rectangle cv m (fx, fy)
                               (fx + fw, py_int (real_of_int fy + 1.5 * real_of_int fh)))
                          (map (map (\<lambda>_. 255)) temp_mask'') faces;
                  final_mask = bitwise_and temp_mask'' face_mask
              in (color_mask, edge_full_mask, final_mask)))"

text \<open>
  The loop over the convexity defects (lines 585 to 606): a defect is (start index, end
  index, far index, depth); the candidates are collected in the order of the defects.
\<close>

fun defect_candidates ::
  "contour \<Rightarrow> real \<Rightarrow> (nat \<times> nat \<times> nat \<times> int) list \<Rightarrow> error + (point \<times> real) list" where
  "defect_candidates c wrist_threshold_y [] = Inr []"
| "defect_candidates c wrist_threshold_y ((s, e, f, d) # rest) =
     (if length c \<le> s \<or> length c \<le> e \<or> length c \<le> f then Inl IndexError
      else (let start = c ! s; end = c ! e; far = c ! f;
                found =
                  (if d > 5000 \<and> angle_between_points start far end < 100 \<and>
                      real_of_int (snd far) < wrist_threshold_y \<and>
                      real_of_int (snd start) < wrist_threshold_y \<and>
                      real_of_int (snd end) < wrist_threshold_y
                   then [(start, hypot (fst start - fst far) (snd start - snd far)),
                         (end, hypot (fst end - fst far) (snd end - snd far))]
                   else [])
            in case defect_candidates c wrist_threshold_y rest of
                 Inl err \<Rightarrow> Inl err
               | Inr others \<Rightarrow> Inr (found @ others)))"

text \<open>Lines 609 to 618: the filter around the highest candidate, and the merge.\<close>

definition filter_candidates :: "(point \<times> real) list \<Rightarrow> point list" where
  "filter_candidates candidate_points =
     (if candidate_points \<noteq> []
      then (case py_min_by (\<lambda>x. snd (fst x)) (hd candidate_points) (tl candidate_points) of
              (highest_candidate, ref_distance) \<Rightarrow>
                merge_close_points 20
                  (map fst (filter (\<lambda>(pt, dist).
                       hypot (fst pt - fst highest_candidate) (snd pt - snd highest_candidate)
                         \<le> 2.2 * ref_distance) candidate_points)))
      else [])"

text \<open>Lines 621 to 624: the single point of the fallback, if it is accepted.\<close>

definition fallback_points :: "contour \<Rightarrow> point \<Rightarrow> real \<Rightarrow> point list" where
  "fallback_points c center wrist_threshold_y =
     (case fallback_single_finger c center 50 of
        Some single_pt \<Rightarrow> if real_of_int (snd single_pt) < wrist_threshold_y then [single_pt] else []
      | None \<Rightarrow> [])"

text \<open>Lines 574 to 626: the fingertips of the contour, in the coordinates of the region.\<close>

definition fingertips_of ::
  "cvlib \<Rightarrow> contour \<Rightarrow> int \<times> int \<times> int \<times> int \<Rightarrow> error + point list" where
  "fingertips_of cv c box =
     (case box of
        (xF, yF, wF, hF) \<Rightarrow>
          (let center = get_palm_center cv c;
               hull_indices = convexHull cv c
           in if length hull_indices > 3
              then (case convexityDefects cv c hull_indices of
                      None \<Rightarrow> Inr []
                    | Some defects \<Rightarrow>
                        (let wrist_threshold_y = real_of_int yF + 0.65 * real_of_int hF
                         in case defect_candidates c wrist_threshold_y defects of
                              Inl err \<Rightarrow> Inl err
                            | Inr candidate_points \<Rightarrow>
                                (let fingertip_points = filter_candidates candidate_points
                                 in if length fingertip_points = 0
                                    then Inr (fallback_points c center wrist_threshold_y)
                                    else Inr fingertip_points)))
              else Inr []))"

text \<open>Lines 552 to 562: seeding and updating the smoother with a measured centre.\<close>

definition track :: "tracker \<Rightarrow> real \<Rightarrow> real \<Rightarrow> tracker" where
  "track st x y =
     (let st1 = (if smoothed_center st = None \<and> use_kalman st
                 then st \<lparr> kalman := set_kalman_position (kalman st) x y,
                          smoothed_center := Some (x, y) \<rparr>
                 else st)
      in if use_kalman st1
         then (case update_kalman (kalman st1) (Some x) (Some y) of
                 (kf, new) \<Rightarrow> st1 \<lparr> kalman := kf, smoothed_center := Some new \<rparr>)
         else st1 \<lparr> smoothed_center := Some (x, y) \<rparr>)"

text \<open>
  Lines 529 to 626, entered with the largest contour of the final mask. The bounding box
  of a contour that the library found in a raster has no negative component.
\<close>

definition hand_stage ::
  "cvlib \<Rightarrow> tracker \<Rightarrow> int \<Rightarrow> int \<Rightarrow> mask \<Rightarrow> mask \<Rightarrow> mask \<Rightarrow> contour \<Rightarrow>
   error + (detection \<times> tracker)" where
  "hand_stage cv st offset_x offset_y cmask emask bmask contour0 =
     (case boundingRect contour0 of
        (xF, yF, wF, hF) \<Rightarrow>
          (case cut_forearm_automatically bmask (nat xF) (nat yF) (nat wF) (nat hF) 0.5 2 of
             Inl err \<Rightarrow> Inl err
           | Inr (bmask', was_cut) \<Rightarrow>
               (let cont_after = findContours cv bmask';
                    none = \<lparr> color_mask = cmask, edge_full_mask = emask, biggest_mask = bmask',
                             fingertips = [], max_contour = Some contour0 \<rparr>
                in if cont_after = [] then Inr (none, st)
                   else (let contour1 = largest_contour cont_after;
                             area2 = contourArea contour1
                         in if area2 > 500
                            then (case boundingRect contour1 of
                                    (xF, yF, wF, hF) \<Rightarrow>
                                      (let cxF = real_of_int xF + real_of_int wF / 2;
                                           cyF = real_of_int yF + real_of_int hF / 2;
                                           st' = track st (cxF + real_of_int offset_x)
                                                   (cyF + real_of_int offset_y)
                                       in case fingertips_of cv contour1 (xF, yF, wF, hF) of
                                            Inl err \<Rightarrow> Inl err
                                          | Inr final_fingertips \<Rightarrow>
                                              Inr (none \<lparr> fingertips :=
                                                       map (\<lambda>pt. (fst pt + offset_x, snd pt + offset_y))
                                                         final_fingertips,
                                                     max_contour := Some contour1 \<rparr>, st')))
                            else Inr (none \<lparr> max_contour := Some contour1 \<rparr>, st)))))"

text \<open>The external contours of the final mask (line 514).\<close>

definition final_contours :: "cvlib \<Rightarrow> skin_ranges \<Rightarrow> bgr list list \<Rightarrow> contour list" where
  "final_contours cv rg frame_roi = findContours cv (snd (snd (hand_masks cv rg frame_roi)))"

definition detect_hand ::
  "cvlib \<Rightarrow> tracker \<Rightarrow> bgr list list \<Rightarrow> int \<Rightarrow> int \<Rightarrow> error + (detection \<times> tracker)" where
  "detect_hand cv st frame_roi offset_x offset_y =
     (case skin st of
        None \<Rightarrow> Inl CvError
      | Some rg \<Rightarrow>
          (case hand_masks cv rg frame_roi of
             (cmask, emask, final_mask) \<Rightarrow>
               (let cont_final = final_contours cv rg frame_roi;
                    bmask = zeros_like final_mask
                in if cont_final = []
                   then Inr (\<lparr> color_mask = cmask, edge_full_mask = emask, biggest_mask = bmask,
                               fingertips = [], max_contour = None \<rparr>, st)
                   else (let contour0 = largest_contour cont_final;
                             area_m = contourArea contour0;
                             bmask' = (if area_m > 500 then drawContours cv bmask contour0 else bmask)
                         in if area_m > 1000
                            then hand_stage cv st offset_x offset_y cmask emask bmask' contour0
                            else Inr (\<lparr> color_mask = cmask, edge_full_mask = emask,
                                        biggest_mask = bmask', fingertips = [],
                                        max_contour = Some contour0 \<rparr>, st)))))"

text \<open>
  The contour on which \<^verbatim>\<open>detect_hand\<close> measures the centre and extracts fingertips, if
  there is one: the largest contour after the forearm cut, when the largest contour of
  the final mask has an area above 1000 and the one after the cut an area above 500.
\<close>

definition hand_candidate :: "cvlib \<Rightarrow> skin_ranges \<Rightarrow> bgr list list \<Rightarrow> error + contour option" where
  "hand_candidate cv rg frame_roi =
     (let cont_final = final_contours cv rg frame_roi
      in if cont_final = [] then Inr None
         else (let contour0 = largest_contour cont_final
               in if contourArea contour0 > 1000
                  then (case boundingRect contour0 of
                          (xF, yF, wF, hF) \<Rightarrow>
                            (case cut_forearm_automatically
                                    (drawContours cv
                                       (zeros_like (snd (snd (hand_masks cv rg frame_roi)))) contour0)
                                    (nat xF) (nat yF) (nat wF) (nat hF) 0.5 2 of
                               Inl err \<Rightarrow> Inl err
                             | Inr (bmask', was_cut) \<Rightarrow>
                                 (let cont_after = findContours cv bmask'
                                  in if cont_after \<noteq> [] \<and>
                                        contourArea (largest_contour cont_after) > 500
                                     then Inr (Some (largest_contour cont_after))
                                     else Inr None)))
                  else Inr None))"

subsection \<open>Sample inputs\<close>

text \<open>
  A library instance for evaluating concrete inputs: the colour conversions follow the
  formulas of the OpenCV documentation with rounding to the nearest integer, and the
  elliptical structuring element of size 10 is the 10 by 10 element of OpenCV. In this
  instance no edge, face or contour is found; the inputs below replace the contour
  functions by what the library yields on them.
\<close>

definition ellipse10 :: mask where
  "ellipse10 =
     [[0, 0, 0, 0, 0, 1, 0, 0, 0, 0],
      [0, 0, 1, 1, 1, 1, 1, 1, 1, 0],
      [0, 1, 1, 1, 1, 1, 1, 1, 1, 1],
      [1, 1, 1, 1, 1, 1, 1, 1, 1, 1],
      [1, 1, 1, 1, 1, 1, 1, 1, 1, 1],
      [1, 1, 1, 1, 1, 1, 1, 1, 1, 1],
      [1, 1, 1, 1, 1, 1, 1, 1, 1, 1],
      [1, 1, 1, 1, 1, 1, 1, 1, 1, 1],
      [0, 1, 1, 1, 1, 1, 1, 1, 1, 1],
      [0, 0, 1, 1, 1, 1, 1, 1, 1, 0]]"

definition round_div :: "int \<Rightarrow> int \<Rightarrow> int" where
  "round_div a b = (2 * a + b) div (2 * b)"

definition sample_gray :: "bgr \<Rightarrow> u8" where
  "sample_gray = (\<lambda>(b, g, r).
     word_of_int (round_div (299 * uint r + 587 * uint g + 114 * uint b) 1000))"

definition sample_ycrcb :: "bgr \<Rightarrow> u8 \<times> u8 \<times> u8" where
  "sample_ycrcb = (\<lambda>(b, g, r).
     let y1000 = 299 * uint r + 587 * uint g + 114 * uint b
     in (word_of_int (round_div y1000 1000),
         word_of_int (round_div ((1000 * uint r - y1000) * 713 + 128000000) 1000000),
         word_of_int (round_div ((1000 * uint b - y1000) * 564 + 128000000) 1000000)))"

definition sample_hsv :: "bgr \<Rightarrow> u8 \<times> u8 \<times> u8" where
  "sample_hsv = (\<lambda>(b', g', r').
     let b = uint b'; g = uint g'; r = uint r';
         v = max r (max g b); d = v - min r (min g b);
         h = (if d = 0 then 0
              else if v = r then round_div (30 * (g - b) + (if g < b then 180 * d else 0)) d
              else if v = g then round_div (60 * d + 30 * (b - r)) d
              else round_div (120 * d + 30 * (r - g)) d)
     in (word_of_int h, word_of_int (if v = 0 then 0 else round_div (255 * d) v), word_of_int v))"

text \<open>The moments of a polygon by Green's formula, with a positive area.\<close>

definition polygon_moments :: "(int \<times> int) list \<Rightarrow> real \<times> real \<times> real" where
  "polygon_moments c =
     (if c = [] then (0, 0, 0)
      else (let edges = zip c (tl c @ [hd c]);
                cross = (\<lambda>((x1, y1), (x2, y2)). x1 * y2 - x2 * y1);
                a2 = sum_list (map cross edges);
                mx = sum_list (map (\<lambda>e. (fst (fst e) + fst (snd e)) * cross e) edges);
                my = sum_list (map (\<lambda>e. (snd (fst e) + snd (snd e)) * cross e) edges);
                sg = (if a2 < 0 then - 1 else 1)
            in (real_of_int (sg * a2) / 2, real_of_int (sg * mx) / 6, real_of_int (sg * my) / 6)))"

definition sample_cv :: cvlib where
  "sample_cv = \<lparr>
     cvtColor_BGR2GRAY = sample_gray,
     cvtColor_BGR2HSV = sample_hsv,
     cvtColor_BGR2YCrCb = sample_ycrcb,
     getStructuringElement_ELLIPSE = (\<lambda>n. if n = 10 then ellipse10 else replicate n (replicate n 1)),
     np_weak_promotion = True,
     Canny = (\<lambda>gray lo hi. zeros_like gray),
     Sobel_magnitude = zeros_like,
     morphologyEx_OPEN = (\<lambda>m n. m),
     morphologyEx_CLOSE = (\<lambda>m n. m),
     line = (\<lambda>m p q. m),
     rectangle = (\<lambda>m p q. m),
     detectMultiScale = (\<lambda>gray. []),
     findContours = (\<lambda>m. []),
     drawContours = (\<lambda>m c. m),
     convexHull = (\<lambda>c. [0..<length c]),
     convexityDefects = (\<lambda>c hull_indices. None),
     moments = polygon_moments \<rparr>"

text \<open>
  A 10 by 8 mask whose bottom row is 8 pixels wide, the row above it 3 and every higher
  row 1; and a 10 by 2 mask that is filled everywhere.
\<close>

definition wrist_mask :: mask where
  "wrist_mask =
     replicate 7 [0, 0, 0, 255, 0, 0, 0, 0] @
     [[0, 0, 0, 255, 0, 0, 0, 0],
      [0, 0, 255, 255, 255, 0, 0, 0],
      [255, 255, 255, 255, 255, 255, 255, 255]]"

definition palm_mask :: mask where
  "palm_mask = replicate 10 [255, 255]"

text \<open>Frames of one colour: a grey one and two of the colour of skin.\<close>

definition gray_frame :: "bgr list list" where
  "gray_frame = replicate 480 (replicate 640 (128, 128, 128))"

definition skin_frame :: "bgr list list" where
  "skin_frame = replicate 480 (replicate 640 (120, 150, 200))"

definition skin_frame' :: "bgr list list" where
  "skin_frame' = replicate 480 (replicate 640 (120, 150, 204))"

text \<open>
  A frame of dark green, the ranges that the manual calibration commits on it, and a frame
  of pale olive that the automatic calibration accepts after it.
\<close>

definition green_frame :: "bgr list list" where
  "green_frame = replicate 480 (replicate 640 (0, 30, 0))"

definition green_ranges :: skin_ranges where
  "green_ranges =
     \<lparr> lower_skin_hsv = (60, 30, 60), upper_skin_hsv = (60, 255, 255),
       lower_skin_ycrcb = (0, 133, 117), upper_skin_ycrcb = (255, 116, 119) \<rparr>"

definition olive_frame :: "bgr list list" where
  "olive_frame = replicate 480 (replicate 640 (120, 135, 135))"

text \<open>The ranges that the manual calibration commits on the first skin frame.\<close>

definition skin_ranges0 :: skin_ranges where
  "skin_ranges0 =
     \<lparr> lower_skin_hsv = (11, 30, 60), upper_skin_hsv = (11, 255, 255),
       lower_skin_ycrcb = (0, 133, 80), upper_skin_ycrcb = (255, 173, 127) \<rparr>"

text \<open>
  Frames for \<^verbatim>\<open>detect_hand\<close>: the pixels of a binary mask have the colour of skin, the
  others are grey, and the library finds the given contour in the mask and draws the mask
  for the contour. The shapes are a pencil, 11 pixels wide and 110 high with a tip at the
  top, and a square of 30 pixels; both have horizontal, vertical and diagonal edges only,
  so that the simple chain approximation yields their corners. The tracker state is the
  one after \<^verbatim>\<open>main\<close> has initialised the filter and the manual calibration has committed
  the ranges of the skin frame.
\<close>

definition shape_frame :: "mask \<Rightarrow> bgr list list" where
  "shape_frame m = map (map (\<lambda>v. if v = 255 then (120, 150, 200) else (128, 128, 128))) m"

definition shape_cv :: "mask \<Rightarrow> contour \<Rightarrow> cvlib" where
  "shape_cv m c = sample_cv \<lparr> findContours := (\<lambda>m'. if m' = m then [c] else []),
                            drawContours := (\<lambda>m' c'. if c' = c then m else m') \<rparr>"

definition pencil :: contour where
  "pencil = [(5, 0), (0, 5), (0, 109), (10, 109), (10, 5)]"

definition pencil_mask :: mask where
  "pencil_mask =
     map (\<lambda>r. if r < 5 then replicate (5 - r) 0 @ replicate (2 * r + 1) 255 @ replicate (5 - r) 0
              else replicate 11 255) [0..<110]"

definition square30 :: contour where
  "square30 = [(0, 0), (0, 29), (29, 29), (29, 0)]"

definition square_mask :: mask where
  "square_mask = replicate 30 (replicate 30 255)"

definition st0 :: tracker where
  "st0 = \<lparr> skin = Some skin_ranges0, kalman = init_kalman_filter, smoothed_center = None,
           use_kalman = True \<rparr>"

definition binary_mask :: "mask \<Rightarrow> bool" where
  "binary_mask m \<longleftrightarrow> (\<forall>row \<in> set m. \<forall>v \<in> set row. v = 0 \<or> v = 255)"

text \<open>
  The filter and the tracker state after the pencil has been seen at the offsets 0 and 10:
  the measured centres are (5.5, 55) and (15.5, 55).
\<close>

definition filter_seeded :: kalman_filter where
  "filter_seeded = kf_correct (kf_predict (set_kalman_position init_kalman_filter (11 / 2) 55)) [11 / 2, 55]"

definition filter_moved :: kalman_filter where
  "filter_moved = kf_correct (kf_predict filter_seeded) [31 / 2, 55]"

definition st_one :: tracker where
  "st_one = st0 \<lparr> kalman := filter_seeded, smoothed_center := Some (11 / 2, 55) \<rparr>"

definition st_two :: tracker where
  "st_two = st0 \<lparr> kalman := filter_moved, smoothed_center := Some (16463601 / 1075142, 55) \<rparr>"

section \<open>Properties\<close>

lemma hypot_less_iff:
  "0 \<le> t \<Longrightarrow> hypot dx dy < t \<longleftrightarrow> real_of_int (dx * dx + dy * dy) < t * t"
proof -
  assume t: "0 \<le> t"
  have nn: "0 \<le> real_of_int (dx * dx + dy * dy)"
    by simp
  have "hypot dx dy < t \<longleftrightarrow> sqrt (real_of_int (dx * dx + dy * dy)) < sqrt (t * t)"
    using t by (simp add: hypot_def)
  also have "\<dots> \<longleftrightarrow> real_of_int (dx * dx + dy * dy) < t * t"
    by (rule real_sqrt_less_iff)
  finally show ?thesis .
qed

subsection \<open>Merging two points\<close>

text \<open>
  Claim C8. With the default threshold of 20 px, two input points whose distance is
  below the threshold are merged into exactly one point, their componentwise integer
  midpoint; two points at distance 20 or more are both returned, unchanged and in order.
\<close>

theorem merge_close_points_pair:
  "(hypot (fst q - fst p) (snd q - snd p) < 20 \<longrightarrow>
      merge_close_points 20 [p, q] = [((fst q + fst p) div 2, (snd q + snd p) div 2)]) \<and>
   (20 \<le> hypot (fst q - fst p) (snd q - snd p) \<longrightarrow>
      merge_close_points 20 [p, q] = [p, q])"
  by (simp add: merge_close_points_def merge_step_def)

theorem merge_close_points_pair_witness:
  "merge_close_points 20 [(0, 0), (3, 4)] = [(1, 2)] \<and>
   merge_close_points 20 [(0, 0), (30, 40)] = [(0, 0), (30, 40)]"
proof -
  have a: "hypot (fst ((3, 4)::point) - fst ((0, 0)::point))
            (snd ((3, 4)::point) - snd ((0, 0)::point)) < 20"
    by (simp add: hypot_less_iff)
  have b: "20 \<le> hypot (fst ((30, 40)::point) - fst ((0, 0)::point))
            (snd ((30, 40)::point) - snd ((0, 0)::point))"
    by (simp add: hypot_less_iff linorder_not_less [symmetric])
  show ?thesis
    using a b merge_close_points_pair [of "(3, 4)" "(0, 0)"]
      merge_close_points_pair [of "(30, 40)" "(0, 0)"]
    by simp
qed

subsection \<open>The forearm cut\<close>

text \<open>
  With the parameters that \<^verbatim>\<open>detect_hand\<close> passes (ratio 0.5, two rows), the counting
  loop stops at the first cut point of the width profile.
\<close>

lemma scan_rows_find:
  assumes "ws = pre @ prev # rest" "i = Suc (length pre)"
    "cnt = (if contracts (1/2) ws (i - 1) then 1 else 0)"
  shows "scan_rows (1/2) 2 rest i cnt prev = find (cut_point (1/2) ws) [i..<length ws]"
  using assms
proof (induction rest arbitrary: pre prev i cnt)
  case Nil
  then show ?case by simp
next
  case (Cons wc rest)
  have len: "i < length ws" using Cons.prems by simp
  have wi: "ws ! i = wc" "ws ! (i - 1) = prev"
    using Cons.prems by (simp_all add: nth_append)
  have c: "contracts (1/2) ws i \<longleftrightarrow> prev > 0 \<and> real wc < 1/2 * real prev"
    using len wi Cons.prems(2) by (auto simp: contracts_def)
  have upt: "[i..<length ws] = i # [Suc i..<length ws]"
    using len by (simp add: upt_conv_Cons)
  define cnt' :: int where "cnt' = (if contracts (1/2) ws i then cnt + 1 else 0)"
  have step: "scan_rows (1/2) 2 (wc # rest) i cnt prev =
      (if cnt' \<ge> 2 then Some i else scan_rows (1/2) 2 rest (Suc i) cnt' wc)"
    unfolding cnt'_def c by (simp add: Let_def)
  have cp: "cut_point (1/2) ws i \<longleftrightarrow> cnt' \<ge> 2"
    unfolding cnt'_def cut_point_def using Cons.prems(3) by simp
  show ?case
  proof (cases "cut_point (1/2) ws i")
    case True
    then show ?thesis
      using cp step upt by simp
  next
    case False
    have cnt'_eq: "cnt' = (if contracts (1/2) ws i then 1 else 0)"
      using False cp Cons.prems(3) unfolding cnt'_def cut_point_def by simp
    have "scan_rows (1/2) 2 rest (Suc i) cnt' wc
          = find (cut_point (1/2) ws) [Suc i..<length ws]"
      by (rule Cons.IH [of "pre @ [prev]"]) (use Cons.prems cnt'_eq in simp_all)
    then show ?thesis
      using False cp step upt by simp
  qed
qed

lemma find_cut_eq: "find_cut (1/2) 2 ws = first_cut_point (1/2) ws"
proof (cases ws)
  case Nil
  then show ?thesis by (simp add: find_cut_def first_cut_point_def)
next
  case (Cons w0 rest)
  have n0: "\<not> cut_point (1/2) ws 0" "\<not> cut_point (1/2) ws (Suc 0)"
    by (simp_all add: cut_point_def contracts_def)
  have "scan_rows (1/2) 2 rest 1 0 w0 = find (cut_point (1/2) ws) [1..<length ws]"
    by (rule scan_rows_find [of ws "[]"]) (use Cons in \<open>simp_all add: contracts_def\<close>)
  moreover have "[0..<length ws] = 0 # [Suc 0..<length ws]"
    by (rule upt_conv_Cons) (simp add: Cons)
  ultimately show ?thesis
    using n0 by (simp add: find_cut_def first_cut_point_def Cons del: upt_Suc)
qed

lemma zero_block_length: "length (zero_block m r0 r1 c0 c1) = length m"
  by (simp add: zero_block_def)

lemma zero_block_row_length:
  "r < length m \<Longrightarrow> length (zero_block m r0 r1 c0 c1 ! r) = length (m ! r)"
  by (simp add: zero_block_def)

lemma zero_block_nth:
  "r < length m \<Longrightarrow> c < length (m ! r) \<Longrightarrow>
   zero_block m r0 r1 c0 c1 ! r ! c =
     (if r0 \<le> r \<and> r < r1 \<and> c0 \<le> c \<and> c < c1 then 0 else m ! r ! c)"
  by (simp add: zero_block_def)


text \<open>The two loops over the rows and columns of the box measure the filled spans.\<close>

lemma sorted_hd_Min: "sorted xs \<Longrightarrow> xs \<noteq> [] \<Longrightarrow> hd xs = Min (set (xs::nat list))"
  by (cases xs) (auto intro!: Min_eqI [symmetric])

lemma sorted_last_Max: "sorted xs \<Longrightarrow> xs \<noteq> [] \<Longrightarrow> last xs = Max (set (xs::nat list))"
  by (induction xs) (auto intro!: Max_eqI [symmetric] simp: max_def)

lemma row_width_span: "row_width (m ! r) x w = span_width m r x w"
proof -
  let ?cols = "filter (\<lambda>col_i. m ! r ! col_i \<noteq> 0) [x..<x + w]"
  have s: "set ?cols = filled_columns m r x w"
    by (auto simp: filled_columns_def)
  have srt: "sorted ?cols"
    by (simp add: sorted_wrt_filter)
  show ?thesis
  proof (cases "?cols = []")
    case True
    then have "filled_columns m r x w = {}"
      using s by (metis set_empty)
    then show ?thesis
      using True by (simp add: row_width_def span_width_def)
  next
    case False
    then have ne: "filled_columns m r x w \<noteq> {}"
      using s by (metis set_empty)
    have "hd ?cols = Min (filled_columns m r x w)" "last ?cols = Max (filled_columns m r x w)"
      using sorted_hd_Min [OF srt False] sorted_last_Max [OF srt False] unfolding s by simp_all
    then show ?thesis
      using False ne by (simp add: row_width_def span_width_def Let_def)
  qed
qed

lemma rev_upt_map: "rev [y..<y + h] = map (\<lambda>i. y + h - 1 - i) [0..<h]"
  by (rule nth_equalityI) (auto simp: rev_nth)

lemma row_widths_profile: "row_widths m x y w h = width_profile m x y w h"
  unfolding row_widths_def width_profile_def rev_upt_map map_map comp_def
  by (simp add: row_width_span)

text \<open>
  Claim C7. A box lower than 10 rows leaves the mask as it is and the result is False.
  For a box of at least 10 rows inside the mask: when, going up from the bottom row of the
  box, no row's filled span falls below half of the span of the row under it for the
  second time in a row, the mask is returned identical with False; otherwise, with \<open>i\<close>
  the first index of the bottom-up profile where that happens, the result is True and the
  new mask differs from the old one exactly in that the pixels of the box from row
  \<open>y + h - 1 - i\<close> down to the bottom of the box are 0.
\<close>

theorem cut_forearm_automatically_spec:
  "(h < 10 \<longrightarrow> cut_forearm_automatically m x y w h (1/2) 2 = Inr (m, False)) \<and>
   (10 \<le> h \<and> box_inside m x y w h \<longrightarrow>
      ((\<forall>i. \<not> cut_point (1/2) (width_profile m x y w h) i) \<longrightarrow>
          cut_forearm_automatically m x y w h (1/2) 2 = Inr (m, False)) \<and>
      (\<forall>i. cut_point (1/2) (width_profile m x y w h) i \<and>
           (\<forall>j<i. \<not> cut_point (1/2) (width_profile m x y w h) j) \<longrightarrow>
           (\<exists>m'. cut_forearm_automatically m x y w h (1/2) 2 = Inr (m', True) \<and>
                 length m' = length m \<and>
                 (\<forall>r<length m. length (m' ! r) = length (m ! r) \<and>
                    (\<forall>c<length (m ! r).
                       m' ! r ! c =
                         (if y + h - 1 - i \<le> r \<and> r < y + h \<and> x \<le> c \<and> c < x + w
                          then 0 else m ! r ! c))))))"
proof (intro conjI impI allI)
  show "cut_forearm_automatically m x y w h (1/2) 2 = Inr (m, False)" if "h < 10"
    using that by (simp add: cut_forearm_automatically_def)
next
  assume hb: "10 \<le> h \<and> box_inside m x y w h"
  assume none: "\<forall>i. \<not> cut_point (1/2) (width_profile m x y w h) i"
  have "first_cut_point (1/2) (width_profile m x y w h) = None"
    using none by (simp add: first_cut_point_def find_None_iff)
  then show "cut_forearm_automatically m x y w h (1/2) 2 = Inr (m, False)"
    using hb by (simp add: cut_forearm_automatically_def find_cut_eq row_widths_profile)
next
  fix i
  assume hb: "10 \<le> h \<and> box_inside m x y w h"
  assume first: "cut_point (1/2) (width_profile m x y w h) i \<and>
           (\<forall>j<i. \<not> cut_point (1/2) (width_profile m x y w h) j)"
  have "i < length (width_profile m x y w h)"
    using first by (simp add: cut_point_def contracts_def)
  then have "first_cut_point (1/2) (width_profile m x y w h) = Some i"
    using first unfolding first_cut_point_def find_Some_iff
    by (intro exI [of _ i]) simp
  then have "cut_forearm_automatically m x y w h (1/2) 2
      = Inr (zero_block m (y + h - 1 - i) (y + h) x (x + w), True)"
    using hb by (simp add: cut_forearm_automatically_def find_cut_eq row_widths_profile)
  then show "\<exists>m'. cut_forearm_automatically m x y w h (1/2) 2 = Inr (m', True) \<and>
                 length m' = length m \<and>
                 (\<forall>r<length m. length (m' ! r) = length (m ! r) \<and>
                    (\<forall>c<length (m ! r).
                       m' ! r ! c =
                         (if y + h - 1 - i \<le> r \<and> r < y + h \<and> x \<le> c \<and> c < x + w
                          then 0 else m ! r ! c)))"
    by (simp add: zero_block_length zero_block_row_length zero_block_nth)
qed

lemma wrist_widths: "width_profile wrist_mask 0 0 8 10 = [8, 3, 1, 1, 1, 1, 1, 1, 1, 1]"
  by code_simp

lemma palm_widths: "width_profile palm_mask 0 0 2 10 = replicate 10 2"
  by code_simp

theorem cut_forearm_automatically_spec_witness:
  "(\<exists>m'. cut_forearm_automatically wrist_mask 0 0 8 10 (1/2) 2 = Inr (m', True) \<and>
         m' ! 9 ! 0 = 0 \<and> m' ! 7 ! 3 = 0 \<and> m' ! 6 ! 3 = 255) \<and>
   cut_forearm_automatically palm_mask 0 0 2 10 (1/2) 2 = Inr (palm_mask, False) \<and>
   cut_forearm_automatically wrist_mask 0 1 8 9 (1/2) 2 = Inr (wrist_mask, False)"
proof (intro conjI)
  note spec = cut_forearm_automatically_spec [where m = wrist_mask and x = 0 and y = 0
      and w = 8 and h = 10]
  have inside: "box_inside wrist_mask 0 0 8 10"
    by code_simp
  have cp: "cut_point (1/2) (width_profile wrist_mask 0 0 8 10) 2"
    by (simp add: wrist_widths cut_point_def contracts_def)
  have first: "\<forall>j<2. \<not> cut_point (1/2) (width_profile wrist_mask 0 0 8 10) j"
    by (simp add: wrist_widths cut_point_def contracts_def less_Suc_eq numeral_2_eq_2)
  from spec inside cp first obtain m' where
    m': "cut_forearm_automatically wrist_mask 0 0 8 10 (1/2) 2 = Inr (m', True)"
    and px: "\<forall>r<length wrist_mask. length (m' ! r) = length (wrist_mask ! r) \<and>
        (\<forall>c<length (wrist_mask ! r).
            m' ! r ! c = (if 0 + 10 - 1 - 2 \<le> r \<and> r < 0 + 10 \<and> 0 \<le> c \<and> c < 0 + 8
                          then 0 else wrist_mask ! r ! c))"
    by auto
  have len: "length wrist_mask = 10" "length (wrist_mask ! 9) = 8"
    "length (wrist_mask ! 7) = 8" "length (wrist_mask ! 6) = 8"
    "wrist_mask ! 6 ! 3 = 255"
    by (simp_all add: wrist_mask_def nth_append)
  have "m' ! 9 ! 0 = 0" "m' ! 7 ! 3 = 0" "m' ! 6 ! 3 = 255"
    using px [rule_format, of 9, THEN conjunct2, rule_format, of 0]
      px [rule_format, of 7, THEN conjunct2, rule_format, of 3]
      px [rule_format, of 6, THEN conjunct2, rule_format, of 3] len
    by simp_all
  with m' show "\<exists>m'. cut_forearm_automatically wrist_mask 0 0 8 10 (1/2) 2 = Inr (m', True) \<and>
         m' ! 9 ! 0 = 0 \<and> m' ! 7 ! 3 = 0 \<and> m' ! 6 ! 3 = 255"
    by blast
next
  have inside: "box_inside palm_mask 0 0 2 10"
    by code_simp
  have none: "\<forall>i. \<not> cut_point (1/2) (width_profile palm_mask 0 0 2 10) i"
  proof
    fix i
    have "\<not> contracts (1/2) (width_profile palm_mask 0 0 2 10) i"
      unfolding palm_widths contracts_def by simp
    then show "\<not> cut_point (1/2) (width_profile palm_mask 0 0 2 10) i"
      by (simp add: cut_point_def)
  qed
  show "cut_forearm_automatically palm_mask 0 0 2 10 (1/2) 2 = Inr (palm_mask, False)"
    using cut_forearm_automatically_spec [where m = palm_mask and x = 0 and y = 0
        and w = 2 and h = 10] inside none
    by simp
next
  show "cut_forearm_automatically wrist_mask 0 1 8 9 (1/2) 2 = Inr (wrist_mask, False)"
    using cut_forearm_automatically_spec [where m = wrist_mask and x = 0 and y = 1
        and w = 8 and h = 9]
    by simp
qed

subsection \<open>Dilation and elementwise operations\<close>

lemma ellipse10_anchor: "(0, 0) \<in> set (kernel_offsets ellipse10)"
  by code_simp


lemma dilate1_length [simp]: "length (dilate1 offs m) = length m"
  by (simp add: dilate1_def)

lemma dilate1_row_length [simp]:
  "r < length m \<Longrightarrow> length (dilate1 offs m ! r) = length (m ! r)"
  by (simp add: dilate1_def)

lemma dilate1_nth:
  "r < length m \<Longrightarrow> c < length (m ! r) \<Longrightarrow>
   dilate1 offs m ! r ! c =
     foldr max (List.map_filter (\<lambda>(dr, dc). pixel_at m (int r + dr) (int c + dc)) offs) 0"
  by (simp add: dilate1_def)

lemma foldr_max_ge: "v \<in> set xs \<Longrightarrow> (v::u8) \<le> foldr max xs b"
  by (induction xs) (auto simp: max_def)

lemma foldr_max_in: "foldr max xs (b::u8) \<in> insert b (set xs)"
  by (induction xs) (auto simp: max_def)

lemma map_filter_set: "set (List.map_filter f xs) = {y. \<exists>x \<in> set xs. f x = Some y}"
  by (force simp: List.map_filter_def image_iff)

lemma pixel_at_in: "pixel_at m r c = Some v \<Longrightarrow> v \<in> set (concat m)"
  by (auto simp: pixel_at_def split: if_splits intro!: bexI [of _ "m ! nat r"])

lemma le_255: "(v::u8) \<le> 255"
proof -
  have "(255::u8) = - 1" by simp
  then show ?thesis by (simp only: word_order.extremum)
qed

lemma dilate1_keeps_255:
  assumes "(0, 0) \<in> set offs" "r < length m" "c < length (m ! r)" "m ! r ! c = 255"
  shows "dilate1 offs m ! r ! c = 255"
proof -
  have "pixel_at m (int r + 0) (int c + 0) = Some 255"
    using assms by (simp add: pixel_at_def)
  then have "255 \<in> set (List.map_filter (\<lambda>(dr, dc). pixel_at m (int r + dr) (int c + dc)) offs)"
    unfolding map_filter_set using assms(1) by (auto intro!: bexI [of _ "(0, 0)"])
  then have "255 \<le> dilate1 offs m ! r ! c"
    using assms by (simp add: dilate1_nth foldr_max_ge)
  then show ?thesis
    using le_255 [of "dilate1 offs m ! r ! c"] by simp
qed

lemma dilate1_values:
  assumes "r < length m" "c < length (m ! r)"
  shows "dilate1 offs m ! r ! c \<in> insert 0 (set (concat m))"
proof -
  let ?xs = "List.map_filter (\<lambda>(dr, dc). pixel_at m (int r + dr) (int c + dc)) offs"
  have "set ?xs \<subseteq> set (concat m)"
    unfolding map_filter_set by (auto dest: pixel_at_in simp del: set_concat)
  moreover have "foldr max ?xs 0 \<in> insert 0 (set ?xs)"
    by (rule foldr_max_in)
  ultimately show ?thesis
    using assms by (auto simp: dilate1_nth simp del: set_concat)
qed

lemma dilate_0 [simp]: "dilate m k 0 = m"
  by (simp add: dilate_def)

lemma dilate_Suc [simp]: "dilate m k (Suc n) = dilate1 (kernel_offsets k) (dilate m k n)"
  by (simp add: dilate_def)

lemma dilate_length [simp]: "length (dilate m k n) = length m"
  by (induction n) simp_all

lemma dilate_row_length [simp]: "r < length m \<Longrightarrow> length (dilate m k n ! r) = length (m ! r)"
  by (induction n) simp_all

lemma dilate_keeps_255:
  assumes "(0, 0) \<in> set (kernel_offsets k)" "r < length m" "c < length (m ! r)" "m ! r ! c = 255"
  shows "dilate m k n ! r ! c = 255"
  using assms by (induction n) (simp_all add: dilate1_keeps_255)

lemma set_concat_dilate1: "set (concat (dilate1 offs m)) \<subseteq> insert 0 (set (concat m))"
proof
  fix v assume "v \<in> set (concat (dilate1 offs m))"
  then obtain row where row: "row \<in> set (dilate1 offs m)" "v \<in> set row"
    by auto
  then obtain r where r: "r < length m" "row = dilate1 offs m ! r"
    by (auto simp: in_set_conv_nth)
  with row obtain c where c: "c < length (m ! r)" "v = dilate1 offs m ! r ! c"
    by (auto simp: in_set_conv_nth)
  show "v \<in> insert 0 (set (concat m))"
    using dilate1_values [OF r(1) c(1)] c(2) by simp
qed

lemma set_concat_dilate: "set (concat (dilate m k n)) \<subseteq> insert 0 (set (concat m))"
proof (induction n)
  case 0
  then show ?case by auto
next
  case (Suc n)
  have "set (concat (dilate m k (Suc n))) \<subseteq> insert 0 (set (concat (dilate m k n)))"
    using set_concat_dilate1 [of "kernel_offsets k" "dilate m k n"] by simp
  with Suc show ?case
    by blast
qed

lemma nth_in_concat: "r < length m \<Longrightarrow> c < length (m ! r) \<Longrightarrow> m ! r ! c \<in> set (concat m)"
  by (auto intro!: bexI [of _ "m ! r"])

lemma single_raster: "length m = 1 \<Longrightarrow> length (m ! 0) = 1 \<Longrightarrow> m = [[m ! 0 ! 0]]"
  by (cases m; cases "hd m") (auto simp: length_Suc_conv)

lemma dilate_single_zero: "dilate [[0]] k n = [[0]]"
proof -
  have "dilate [[0]] k n ! 0 ! 0 \<in> set (concat (dilate [[0]] k n))"
    by (rule nth_in_concat) simp_all
  then have "dilate [[0]] k n ! 0 ! 0 = 0"
    using set_concat_dilate [of "[[0]]" k n] by auto
  then show ?thesis
    using single_raster [of "dilate [[0]] k n"] by simp
qed

lemma dilate_single_255:
  "(0, 0) \<in> set (kernel_offsets k) \<Longrightarrow> dilate [[255]] k n = [[255]]"
  using single_raster [of "dilate [[255]] k n"] dilate_keeps_255 [of k 0 "[[255]]" 0 n]
  by simp

lemma raster_alt: "raster m \<longleftrightarrow> (\<forall>row \<in> set m. length row = snd (shape m))"
  by (cases m) (auto simp: raster_def shape_def)

lemma shape_map_map [simp]: "shape (map (map f) m) = shape m"
  by (cases m) (simp_all add: shape_def)

lemma raster_map_map [simp]: "raster (map (map f) m) = raster m"
  by (cases m) (simp_all add: raster_def)

lemma shape_to_gray [simp]: "shape (to_gray cv img) = image_shape img"
  by (cases img) (simp_all add: to_gray_def image_shape_def)

lemma raster_to_gray [simp]: "raster (to_gray cv img) = image_raster img"
  by (cases img) (simp_all add: to_gray_def image_raster_def)

lemma shape_eq_iff:
  "shape m' = shape m \<longleftrightarrow>
     length m' = length m \<and> (m \<noteq> [] \<longrightarrow> length (m' ! 0) = length (m ! 0))"
  by (cases m; cases m') (auto simp: shape_def)

lemma raster_nth: "raster m \<longleftrightarrow> (\<forall>r<length m. length (m ! r) = length (m ! 0))"
proof (cases "m = []")
  case True
  then show ?thesis by (simp add: raster_def)
next
  case False
  then show ?thesis
    unfolding raster_def all_set_conv_all_nth by (simp add: hd_conv_nth)
qed

lemma shape_dilate [simp]: "shape (dilate m k n) = shape m"
  by (simp add: shape_eq_iff)

lemma raster_dilate [simp]: "raster (dilate m k n) = raster m"
  by (cases "m = []") (simp_all add: raster_nth)

lemma np_elementwise_same_shape:
  assumes "raster a" "raster b" "shape a = shape b"
  shows "np_elementwise f a b = Inr (map2 (map2 f) a b)"
proof -
  obtain h w where hw: "shape a = (h, w)" by (cases "shape a")
  have la: "length a = h" "length b = h"
    using hw assms(3) by (simp_all add: shape_def)
  have wa: "\<forall>row \<in> set a. length row = w" and wb: "\<forall>row \<in> set b. length row = w"
    using assms(1,2) hw assms(3) [symmetric] unfolding raster_alt by simp_all
  have rows: "\<And>ra rb. (ra, rb) \<in> set (zip a b) \<Longrightarrow> length ra = w \<and> length rb = w"
    using wa wb by (auto dest: set_zip_leftD set_zip_rightD)
  have "map2 (\<lambda>ra rb. map2 f (stretch w ra) (stretch w rb)) a b = map2 (map2 f) a b"
    by (rule map_cong) (auto simp: stretch_def dest: rows)
  then show ?thesis
    using hw assms(3) la by (simp add: np_elementwise_def broadcast_dim_def stretch_def)
qed

lemma count_id: "length (filter id (map f xs)) = length (filter f xs)"
  by (induction xs) simp_all

lemma count_mono:
  "(\<And>x. x \<in> set xs \<Longrightarrow> f x \<Longrightarrow> g x) \<Longrightarrow>
   length (filter id (map f xs)) \<le> length (filter id (map g xs))"
  unfolding count_id
proof (induction xs)
  case Nil
  then show ?case by simp
next
  case (Cons x xs)
  have "length (filter f xs) \<le> length (filter g xs)"
    by (rule Cons.IH) (simp add: Cons.prems)
  moreover have "f x \<Longrightarrow> g x"
    by (rule Cons.prems) simp
  ultimately show ?case
    by (cases "f x"; cases "g x") simp_all
qed

lemma np_sum_mono:
  "(\<And>x y. f x y \<Longrightarrow> g x y) \<Longrightarrow> np_sum (map2 (map2 f) a b) \<le> np_sum (map2 (map2 g) a b)"
  unfolding np_sum_def map_map
  by (rule sum_list_mono) (auto intro!: count_mono)


lemma np_elementwise_broadcastable:
  "broadcastable (shape a) (shape b) \<Longrightarrow> \<exists>h w.
     np_elementwise f a b =
       Inr (map2 (\<lambda>ra rb. map2 f (stretch w ra) (stretch w rb)) (stretch h a) (stretch h b))"
  by (auto simp: np_elementwise_def broadcastable_def broadcast_dim_def)


lemma overlap_union_incompatible:
  assumes "\<not> broadcastable (shape a) (shape b)"
  shows "overlap_union a b = Inl ValueError"
  using assms
  by (auto simp: overlap_union_def np_elementwise_def broadcastable_def broadcast_dim_def
      split: option.splits)

lemma overlap_union_same_shape:
  assumes "raster a" "raster b" "shape a = shape b"
  shows "\<exists>ov un. overlap_union a b = Inr (ov, un) \<and> ov \<le> un"
  using assms np_sum_mono [of "\<lambda>x y. x = 255 \<and> y = 255" "\<lambda>x y. x = 255 \<or> y = 255" a b]
  by (simp add: overlap_union_def np_elementwise_same_shape)


lemma unat_not_u8: "unat (NOT (v::u8)) = 255 - unat v"
proof -
  have "NOT v = 255 - v"
    by (simp add: not_eq_complement)
  moreover have "unat (255 - v) = unat (255::u8) - unat v"
    by (rule unat_sub) (rule le_255)
  ultimately show ?thesis by simp
qed

lemma not_gt_127: "(127::u8) < v \<Longrightarrow> \<not> 127 < NOT v"
  by (simp add: word_less_nat_alt unat_not_u8)

lemma map2_same: "map2 f xs xs = map (\<lambda>x. f x x) xs"
  by (simp add: zip_same_conv_map)

lemma np_sum_pos:
  assumes "r < length m" "c < length (m ! r)" "m ! r ! c"
  shows "0 < np_sum m"
proof -
  have "m ! r ! c \<in> set (m ! r)"
    using assms(2) by (rule nth_mem)
  then have "m ! r ! c \<in> set (filter id (m ! r))"
    using assms(3) by simp
  then have "filter id (m ! r) \<noteq> []"
    by (metis empty_iff list.set(1))
  then have "0 < length (filter id (m ! r))"
    by simp
  moreover have "length (filter id (m ! r)) \<in> set (map (\<lambda>row. length (filter id row)) m)"
    using assms(1) by (auto intro!: image_eqI [of _ _ "m ! r"])
  then have "length (filter id (m ! r)) \<le> sum_list (map (\<lambda>row. length (filter id row)) m)"
    by (rule member_le_sum_list) simp
  ultimately show ?thesis
    unfolding np_sum_def by linarith
qed

lemma overlap_union_self:
  assumes "raster a"
  shows "overlap_union a a = Inr (np_sum (map (map (\<lambda>v. v = 255)) a), np_sum (map (map (\<lambda>v. v = 255)) a))"
  using assms by (simp add: overlap_union_def np_elementwise_same_shape map2_same)

subsection \<open>The drawing score\<close>



text \<open>
  Claim C10, as stated, at a row of two pixels scored against a row of three: the two
  dilated masks cannot be compared and the call raises \<^verbatim>\<open>ValueError\<close>.
\<close>

theorem correlation_score_shape_counterexample:
  "correlation_score_default sample_cv (Gray [[0, 0]]) (Gray [[0, 0, 0]]) = Inl ValueError"
proof -
  let ?ud = "dilate (threshold_BINARY_INV [[0, 0]] 127 255) ellipse10 6"
  let ?rd = "dilate (threshold_BINARY_INV (bitwise_not [[0, 0, 0]]) 127 255) ellipse10 6"
  have "shape (threshold_BINARY_INV [[0, 0]] 127 255) = (1, 2)"
    "shape (threshold_BINARY_INV (bitwise_not [[0, 0, 0]]) 127 255) = (1, 3)"
    by (simp_all add: threshold_BINARY_INV_def bitwise_not_def shape_def)
  then have "shape ?ud = (1, 2)" "shape ?rd = (1, 3)"
    by (simp_all only: shape_dilate)
  then have "overlap_union ?ud ?rd = Inl ValueError"
    by (intro overlap_union_incompatible) (simp add: broadcastable_def)
  then show ?thesis
    by (simp add: correlation_score_default_def correlation_score_def sample_cv_def to_gray_def
        Let_def)
qed

text \<open>
  Claim C1, as stated, at a mask of one black pixel scored against itself: the user
  foreground is the pixel, the reference foreground is empty, and the score is 0.
\<close>

theorem correlation_score_self_counterexample:
  "correlation_score_default sample_cv (Gray [[0]]) (Gray [[0]])
     = Inr (0, [[255]], [[0]], [[255]], [[0]]) \<and> (0::real) \<noteq> 100"
  by (simp add: correlation_score_default_def correlation_score_def sample_cv_def to_gray_def
      bitwise_not_def threshold_BINARY_INV_def dilate_single_255 ellipse10_anchor dilate_single_zero
      overlap_union_def np_elementwise_def shape_def broadcast_dim_def stretch_def np_sum_def Let_def
      py_truediv_def)

text \<open>
  Claim C1, amended. The reference is inverted before it is binarized and the user image
  is not. For a reference raster with at least one pixel above 127, scored against its
  own pixelwise inverse as the user image, the binarized and the dilated masks of user and
  reference coincide and the final score is exactly 100 (the structuring element is set
  at its anchor, as an ellipse is).
\<close>

theorem correlation_score_inverted_reference:
  assumes "raster R" "\<exists>row \<in> set R. \<exists>v \<in> set row. 127 < v"
    "(0, 0) \<in> set (kernel_offsets (getStructuringElement_ELLIPSE cv dilation_size))"
  shows "\<exists>user_dil user_bin.
      correlation_score cv (Gray (bitwise_not R)) (Gray R) dilation_size (11 / 10) iter
        = Inr (100, user_dil, user_dil, user_bin, user_bin)"
proof -
  let ?b = "threshold_BINARY_INV (bitwise_not R) 127 255"
  let ?k = "getStructuringElement_ELLIPSE cv dilation_size"
  let ?d = "dilate ?b ?k iter"
  let ?n = "np_sum (map (map (\<lambda>v. v = 255)) ?d)"
  obtain r c where rc: "r < length R" "c < length (R ! r)" "127 < R ! r ! c"
    using assms(2) by (metis in_set_conv_nth)
  have "?b ! r ! c = 255"
    using rc by (simp add: threshold_BINARY_INV_def bitwise_not_def not_gt_127)
  then have "?d ! r ! c = 255"
    using rc assms(3) by (intro dilate_keeps_255) (simp_all add: threshold_BINARY_INV_def bitwise_not_def)
  then have pos: "0 < ?n"
    using rc by (intro np_sum_pos [of r _ c]) (simp_all add: threshold_BINARY_INV_def bitwise_not_def)
  have "raster ?d"
    using assms(1) by (simp add: threshold_BINARY_INV_def bitwise_not_def)
  then have ou: "overlap_union ?d ?d = Inr (?n, ?n)"
    by (rule overlap_union_self)
  show ?thesis
    using ou pos by (simp add: correlation_score_def to_gray_def Let_def py_truediv_def)
qed

theorem correlation_score_inverted_reference_witness:
  "\<exists>user_dil user_bin.
      correlation_score sample_cv (Gray (bitwise_not [[255]])) (Gray [[255]]) 10 (11 / 10) 6
        = Inr (100, user_dil, user_dil, user_bin, user_bin)"
  using correlation_score_inverted_reference [of "[[255]]" sample_cv 10 6]
  by (simp add: raster_def sample_cv_def ellipse10_anchor)

subsection \<open>Statistics of a sampled region\<close>

lemma concat_replicate_replicate: "concat (replicate a (replicate b p)) = replicate (a * b) p"
  by (induction a) (simp_all add: replicate_add)

lemma map_concat_replicate: "map f (concat (replicate n xs)) = concat (replicate n (map f xs))"
  by (induction n) simp_all

lemma sum_list_concat_replicate: "sum_list (concat (replicate n xs)) = real n * sum_list xs"
  by (induction n) (simp_all add: algebra_simps)

lemma length_concat_replicate: "length (concat (replicate n xs)) = n * length xs"
  by (induction n) simp_all

lemma np_mean_concat_replicate:
  "0 < n \<Longrightarrow> np_mean (concat (replicate n xs)) = np_mean xs"
  by (simp add: np_mean_def sum_list_concat_replicate length_concat_replicate)

lemma np_std_concat_replicate:
  "0 < n \<Longrightarrow> np_std (concat (replicate n xs)) = np_std xs"
  by (simp add: np_std_def np_mean_concat_replicate map_concat_replicate)

lemma replicate_as_concat: "replicate n x = concat (replicate n [x])"
  by (induction n) simp_all

lemma np_mean_replicate: "0 < n \<Longrightarrow> np_mean (replicate n v) = v"
  by (simp add: np_mean_def sum_list_replicate)

lemma np_std_replicate: "0 < n \<Longrightarrow> np_std (replicate n v) = 0"
  by (simp add: np_std_def np_mean_replicate)

lemma np_std_pair: "np_std [a, b] = \<bar>a - b\<bar> / 2"
proof -
  have "np_mean (map (\<lambda>x. (x - np_mean [a, b]) ^ 2) [a, b]) = (\<bar>a - b\<bar> / 2) ^ 2"
    by (simp add: np_mean_def power2_eq_square field_simps)
  then show ?thesis
    by (simp add: np_std_def real_sqrt_unique)
qed

lemma py_index_le: "py_index n i \<le> n"
  by (auto simp: py_index_def max_def)

lemma py_slice_replicate:
  "py_slice (replicate n p) a b = replicate (py_index n b - py_index n a) p"
proof -
  have "py_index n b - py_index n a \<le> n - py_index n a"
    using py_index_le [of n b] by simp
  then show ?thesis
    by (simp add: py_slice_def Let_def min_absorb1)
qed

lemma crop_uniform:
  "crop (replicate H (replicate W p)) y1 y2 x1 x2 =
     replicate (py_index H y2 - py_index H y1) (replicate (py_index W x2 - py_index W x1) p)"
  by (simp add: crop_def py_slice_replicate)

lemma hist_uniform:
  assumes "0 < n" "unat h < 180"
  shows "np_argmax (calcHist_180 (replicate n h)) = unat h"
proof -
  let ?hist = "calcHist_180 (replicate n h)"
  have nth: "\<And>i. i < 180 \<Longrightarrow> ?hist ! i = (if i = unat h then n else 0)"
    by (auto simp: calcHist_180_def)
  have len: "length ?hist = 180"
    by (simp add: calcHist_180_def)
  have "set ?hist \<subseteq> {0, n}" "n \<in> set ?hist"
    using nth assms(2) len by (auto simp: in_set_conv_nth)
  then have mx: "Max (set ?hist) = n"
    by (intro Max_eqI) auto
  have "takeWhile (\<lambda>x. x \<noteq> n) ?hist = take (unat h) ?hist"
    by (rule takeWhile_eq_take_P_nth) (use nth assms len in auto)
  then show ?thesis
    unfolding np_argmax_def mx using len assms(2) by simp
qed

lemma py_int_of_nat: "py_int (real n) = int n"
  by (simp add: py_int_def)

lemma py_int_u8_real [simp]: "py_int (u8_real v) = uint v"
  unfolding u8_real_def py_int_of_nat by simp

lemma py_int_0 [simp]: "py_int 0 = 0"
  by (simp add: py_int_def)

lemma region_stats_uniform:
  assumes "0 < a" "0 < b" "cvtColor_BGR2HSV cv p = (h, s, v)" "unat h < 180"
    "cvtColor_BGR2YCrCb cv p = (y, cr, cb)"
  shows "region_stats cv (replicate a (replicate b p)) =
     \<lparr> peak_hue = uint h, std_dev_hsv = 0, cr_mean = uint cr, cb_mean = uint cb,
       std_dev_crcb = py_int (\<bar>u8_real cr - u8_real cb\<bar> / 2) \<rparr>"
proof -
  have n: "0 < a * b" using assms by simp
  have pooled: "concat (map (\<lambda>(y, cr, cb). [u8_real cr, u8_real cb]) (replicate (a * b) (y, cr, cb)))
      = concat (replicate (a * b) [u8_real cr, u8_real cb])"
    by simp
  show ?thesis
    unfolding region_stats_def Let_def
    using n assms(3-5)
    by (simp add: concat_replicate_replicate hist_uniform np_std_replicate np_mean_replicate
        np_std_concat_replicate np_std_pair del: replicate_eq_replicate)
qed

lemma np_argmax_less: "xs \<noteq> [] \<Longrightarrow> np_argmax xs < length xs"
proof -
  assume ne: "xs \<noteq> []"
  have "Max (set xs) \<in> set xs"
    using ne by (intro Max_in) simp_all
  then have "takeWhile (\<lambda>x. x \<noteq> Max (set xs)) xs \<noteq> xs"
    by (auto simp: takeWhile_eq_all_conv)
  moreover have "length (takeWhile (\<lambda>x. x \<noteq> Max (set xs)) xs) \<le> length xs"
    by (rule length_takeWhile_le)
  ultimately show ?thesis
    unfolding np_argmax_def
    by (metis takeWhile_eq_take take_all_iff le_neq_implies_less)
qed

lemma np_mean_bounds:
  assumes "xs \<noteq> []" "\<And>x. x \<in> set xs \<Longrightarrow> 0 \<le> x \<and> x \<le> c"
  shows "0 \<le> np_mean xs" "np_mean xs \<le> c"
proof -
  have "sum_list xs \<le> sum_list (map (\<lambda>_. c) xs)"
    using assms(2) by (intro sum_list_mono [of xs "\<lambda>x. x" "\<lambda>_. c", simplified]) simp
  then have "sum_list xs \<le> real (length xs) * c"
    by (simp add: sum_list_triv)
  moreover have "0 < real (length xs)"
    using assms(1) by simp
  ultimately show "np_mean xs \<le> c"
    by (simp add: np_mean_def pos_divide_le_eq mult.commute)
  have "0 \<le> sum_list xs"
    using assms(2) by (intro sum_list_nonneg) simp
  then show "0 \<le> np_mean xs"
    by (simp add: np_mean_def)
qed

lemma np_std_nonneg: "0 \<le> np_std xs"
proof -
  have "0 \<le> sum_list (map (\<lambda>x. (x - np_mean xs) ^ 2) xs)"
    by (intro sum_list_nonneg) auto
  then show ?thesis
    by (simp add: np_std_def np_mean_def)
qed

lemma py_int_bounds: "0 \<le> x \<Longrightarrow> 0 \<le> py_int x" "0 \<le> x \<Longrightarrow> x \<le> real_of_int c \<Longrightarrow> py_int x \<le> c"
  by (simp_all add: py_int_def floor_le_iff)

lemma u8_real_bounds: "0 \<le> u8_real v" "u8_real v \<le> 255"
proof -
  show "0 \<le> u8_real v" unfolding u8_real_def by (rule of_nat_0_le_iff)
  have "unat v \<le> unat (255::u8)"
    using le_255 [of v] by (simp only: word_le_nat_alt)
  then have "unat v \<le> 255"
    by simp
  then have "real (unat v) \<le> real 255"
    by (simp only: of_nat_le_iff)
  then show "u8_real v \<le> 255"
    unfolding u8_real_def by simp
qed

lemma concat_nonempty: "\<not> empty_region region \<Longrightarrow> concat (map (map f) region) \<noteq> []"
  by (cases region) (auto simp: empty_region_def width_def)

lemma region_stats_valid:
  assumes "\<not> empty_region region"
  shows "valid_stats (region_stats cv region)"
proof -
  let ?ycc = "concat (map (map (cvtColor_BGR2YCrCb cv)) region)"
  have ne: "?ycc \<noteq> []"
    using assms by (rule concat_nonempty)
  have hist: "calcHist_180 xs \<noteq> []" "length (calcHist_180 xs) = 180" for xs
    by (simp_all add: calcHist_180_def)
  have peak: "np_argmax (calcHist_180 xs) < 180" for xs
    using np_argmax_less [OF hist(1), of xs] hist(2) [of xs] by simp
  have mean: "0 \<le> py_int (np_mean (map f ?ycc)) \<and> py_int (np_mean (map f ?ycc)) \<le> 255"
    if f: "\<And>p. 0 \<le> f p \<and> f p \<le> 255" for f
  proof -
    have m: "0 \<le> np_mean (map f ?ycc)" "np_mean (map f ?ycc) \<le> 255"
      by (rule np_mean_bounds [where c = 255], use ne f in auto)+
    show ?thesis
      using py_int_bounds(1) [OF m(1)] py_int_bounds(2) [OF m(1), of 255] m(2) by simp
  qed
  have cr: "0 \<le> py_int (np_mean (map (\<lambda>(y, cr, cb). u8_real cr) ?ycc)) \<and>
    py_int (np_mean (map (\<lambda>(y, cr, cb). u8_real cr) ?ycc)) \<le> 255"
    by (rule mean) (auto simp: u8_real_bounds)
  have cb: "0 \<le> py_int (np_mean (map (\<lambda>(y, cr, cb). u8_real cb) ?ycc)) \<and>
    py_int (np_mean (map (\<lambda>(y, cr, cb). u8_real cb) ?ycc)) \<le> 255"
    by (rule mean) (auto simp: u8_real_bounds)
  show ?thesis
    unfolding valid_stats_def region_stats_def Let_def
    using peak cr cb by (simp add: py_int_bounds(1) np_std_nonneg)
qed


lemma uint_u8_of_int: "0 \<le> a \<Longrightarrow> a \<le> 255 \<Longrightarrow> uint (word_of_int a :: u8) = a"
  by (simp add: uint_word_of_int take_bit_int_eq_self)

lemma ints_np_uint8:
  "0 \<le> a \<Longrightarrow> a \<le> 255 \<Longrightarrow> 0 \<le> b \<Longrightarrow> b \<le> 255 \<Longrightarrow> 0 \<le> c \<Longrightarrow> c \<le> 255 \<Longrightarrow>
   ints (np_uint8 (a, b, c)) = (a, b, c)"
  by (simp add: ints_def np_uint8_def uint_u8_of_int)

lemma new_ranges_stored:
  assumes "valid_stats s"
  shows "ints (lower_skin_hsv (new_ranges s)) = fst (hsv_bounds s)"
    "ints (upper_skin_hsv (new_ranges s)) = snd (hsv_bounds s)"
    "ints (lower_skin_ycrcb (new_ranges s)) = fst (ycrcb_bounds s)"
    "ints (upper_skin_ycrcb (new_ranges s)) = snd (ycrcb_bounds s)"
  using assms unfolding valid_stats_def new_ranges_def hsv_bounds_def ycrcb_bounds_def
  by (simp_all add: ints_np_uint8)

subsection \<open>Committed colour ranges\<close>

lemma new_ranges_one_sided:
  assumes "valid_stats s"
  shows "one_sided_ranges (new_ranges s) s"
  unfolding one_sided_ranges_def new_ranges_stored [OF assms]
  using assms unfolding valid_stats_def hsv_bounds_def ycrcb_bounds_def
  by auto

text \<open>
  Claim C2, amended. After a manual calibration, and after an automatic calibration that
  passes the drift test, the committed ranges are related as follows to the statistics of
  the sampled region (the centre region of the frame, or the box around the given point):
  every stored component is the computed integer (it fits in 8 bits), the hue bounds lie
  in 0 to 180 with lower at most upper, the saturation, value and luma bounds are ordered,
  the lower Cr bound is at least 133 and the upper one at most 173, the lower Cb bound is
  at least 77 and the upper one at most 127; the Cr (Cb) bounds are ordered exactly when
  the interval of one standard deviation around the sampled mean meets 133 to 173 (77 to
  127).
\<close>

theorem committed_ranges_one_sided:
  "(calibrate_skin_color cv frame = Inr (rg, frame') \<longrightarrow>
      one_sided_ranges rg (region_stats cv (center_region frame))) \<and>
   (auto_calibrate_skin_color cv (Some old) frame cx cy box_size = Inr (Some rg, box) \<and>
      \<not> drift_rejected cv old (region_stats cv (auto_region frame cx cy box_size)) \<longrightarrow>
      one_sided_ranges rg (region_stats cv (auto_region frame cx cy box_size)))"
proof (intro conjI impI)
  assume "calibrate_skin_color cv frame = Inr (rg, frame')"
  then have "\<not> empty_region (center_region frame)"
    "rg = new_ranges (region_stats cv (center_region frame))"
    by (auto simp: calibrate_skin_color_def Let_def split: if_splits)
  then show "one_sided_ranges rg (region_stats cv (center_region frame))"
    using new_ranges_one_sided [OF region_stats_valid] by blast
next
  assume "auto_calibrate_skin_color cv (Some old) frame cx cy box_size = Inr (Some rg, box) \<and>
      \<not> drift_rejected cv old (region_stats cv (auto_region frame cx cy box_size))"
  then have "\<not> empty_region (auto_region frame cx cy box_size)"
    "rg = new_ranges (region_stats cv (auto_region frame cx cy box_size))"
    by (auto simp: auto_calibrate_skin_color_def Let_def split: if_splits)
  then show "one_sided_ranges rg (region_stats cv (auto_region frame cx cy box_size))"
    using new_ranges_one_sided [OF region_stats_valid] by blast
qed

lemma skin_stats:
  "region_stats sample_cv (replicate 25 (replicate 25 (120, 150, 200))) =
     \<lparr> peak_hue = 11, std_dev_hsv = 0, cr_mean = 155, cb_mean = 105, std_dev_crcb = 25 \<rparr>"
  by (subst region_stats_uniform [where h = 11 and s = 102 and v = 200 and y = 162 and cr = 155 and cb = 105])
     (simp_all add: sample_cv_def sample_hsv_def sample_ycrcb_def round_div_def Let_def u8_real_def py_int_def)

lemma skin_stats':
  "region_stats sample_cv (replicate 50 (replicate 50 (120, 150, 204))) =
     \<lparr> peak_hue = 11, std_dev_hsv = 0, cr_mean = 157, cb_mean = 104, std_dev_crcb = 26 \<rparr>"
  by (subst region_stats_uniform [where h = 11 and s = 105 and v = 204 and y = 163 and cr = 157 and cb = 104])
     (simp_all add: sample_cv_def sample_hsv_def sample_ycrcb_def round_div_def Let_def u8_real_def py_int_def)

lemma green_stats:
  "region_stats sample_cv (replicate 25 (replicate 25 (0, 30, 0))) =
     \<lparr> peak_hue = 60, std_dev_hsv = 0, cr_mean = 115, cb_mean = 118, std_dev_crcb = 1 \<rparr>"
  by (subst region_stats_uniform [where h = 60 and s = 255 and v = 30 and y = 18 and cr = 115 and cb = 118])
     (simp_all add: sample_cv_def sample_hsv_def sample_ycrcb_def round_div_def Let_def u8_real_def py_int_def)

lemma olive_stats:
  "region_stats sample_cv (replicate 50 (replicate 50 (120, 135, 135))) =
     \<lparr> peak_hue = 30, std_dev_hsv = 0, cr_mean = 129, cb_mean = 121, std_dev_crcb = 4 \<rparr>"
  by (subst region_stats_uniform [where h = 30 and s = 28 and v = 135 and y = 133 and cr = 129 and cb = 121])
     (simp_all add: sample_cv_def sample_hsv_def sample_ycrcb_def round_div_def Let_def u8_real_def py_int_def)

lemma center_uniform:
  "center_region (replicate 480 (replicate 640 p)) = replicate 25 (replicate 25 p)"
  by (simp add: center_region_def width_def crop_uniform py_index_def)

lemma auto_uniform:
  "auto_region (replicate 480 (replicate 640 p)) 320 240 50 = replicate 50 (replicate 50 p)"
  by (simp add: auto_region_def sampled_box_def width_def crop_uniform py_index_def)

lemma skin_calibration:
  "calibrate_skin_color sample_cv skin_frame = Inr (skin_ranges0, skin_frame)"
  unfolding calibrate_skin_color_def Let_def skin_frame_def center_uniform skin_stats
  by (simp add: empty_region_def width_def new_ranges_def hsv_bounds_def ycrcb_bounds_def
      np_uint8_def skin_ranges0_def)

lemma green_calibration:
  "calibrate_skin_color sample_cv green_frame = Inr (green_ranges, green_frame)"
  unfolding calibrate_skin_color_def Let_def green_frame_def center_uniform green_stats
  by (simp add: empty_region_def width_def new_ranges_def hsv_bounds_def ycrcb_bounds_def
      np_uint8_def green_ranges_def)

lemma olive_accepted:
  "\<not> drift_rejected sample_cv green_ranges (region_stats sample_cv (auto_region olive_frame 320 240 50))"
  unfolding olive_frame_def auto_uniform olive_stats
  by (simp add: drift_rejected_def green_ranges_def scalar_diff_def sample_cv_def Let_def)

lemma olive_calibration:
  "auto_calibrate_skin_color sample_cv (Some green_ranges) olive_frame 320 240 50 =
     Inr (Some \<lparr> lower_skin_hsv = (30, 30, 60), upper_skin_hsv = (30, 255, 255),
                   lower_skin_ycrcb = (0, 133, 117), upper_skin_ycrcb = (255, 133, 125) \<rparr>,
          (295, 215, 345, 265))"
proof -
  have box: "sampled_box olive_frame 320 240 50 = (295, 215, 345, 265)"
    by (simp add: sampled_box_def olive_frame_def width_def)
  have ne: "\<not> empty_region (auto_region olive_frame 320 240 50)"
    by (simp add: olive_frame_def auto_uniform empty_region_def width_def)
  have "auto_calibrate_skin_color sample_cv (Some green_ranges) olive_frame 320 240 50 =
      Inr (Some (new_ranges (region_stats sample_cv (auto_region olive_frame 320 240 50))),
           (295, 215, 345, 265))"
    using ne olive_accepted by (simp add: auto_calibrate_skin_color_def Let_def box)
  then show ?thesis
    unfolding olive_frame_def auto_uniform olive_stats
    by (simp add: new_ranges_def hsv_bounds_def ycrcb_bounds_def np_uint8_def)
qed

text \<open>
  Claim C2, amended, on the skin frame (statistics 11, 0, 155, 105, 25: both chroma ranges
  are ordered) and on the olive frame after the green one (Cr mean 129 with deviation 4:
  the Cr range is the single value 133).
\<close>

theorem committed_ranges_one_sided_witness:
  "one_sided_ranges skin_ranges0 (region_stats sample_cv (center_region skin_frame)) \<and>
   region_stats sample_cv (center_region skin_frame) =
     \<lparr> peak_hue = 11, std_dev_hsv = 0, cr_mean = 155, cb_mean = 105, std_dev_crcb = 25 \<rparr> \<and>
   one_sided_ranges
     \<lparr> lower_skin_hsv = (30, 30, 60), upper_skin_hsv = (30, 255, 255),
       lower_skin_ycrcb = (0, 133, 117), upper_skin_ycrcb = (255, 133, 125) \<rparr>
     (region_stats sample_cv (auto_region olive_frame 320 240 50)) \<and>
   region_stats sample_cv (auto_region olive_frame 320 240 50) =
     \<lparr> peak_hue = 30, std_dev_hsv = 0, cr_mean = 129, cb_mean = 121, std_dev_crcb = 4 \<rparr>"
proof (intro conjI)
  show "one_sided_ranges skin_ranges0 (region_stats sample_cv (center_region skin_frame))"
    using committed_ranges_one_sided [where cv = sample_cv and frame = skin_frame
        and rg = skin_ranges0 and frame' = skin_frame] skin_calibration
    by simp
  show "region_stats sample_cv (center_region skin_frame) =
     \<lparr> peak_hue = 11, std_dev_hsv = 0, cr_mean = 155, cb_mean = 105, std_dev_crcb = 25 \<rparr>"
    by (simp add: skin_frame_def center_uniform skin_stats)
  show "one_sided_ranges
     \<lparr> lower_skin_hsv = (30, 30, 60), upper_skin_hsv = (30, 255, 255),
       lower_skin_ycrcb = (0, 133, 117), upper_skin_ycrcb = (255, 133, 125) \<rparr>
     (region_stats sample_cv (auto_region olive_frame 320 240 50))"
    using committed_ranges_one_sided [where cv = sample_cv and old = green_ranges
        and frame = olive_frame and cx = 320 and cy = 240 and box_size = 50
        and rg = "\<lparr> lower_skin_hsv = (30, 30, 60), upper_skin_hsv = (30, 255, 255),
           lower_skin_ycrcb = (0, 133, 117), upper_skin_ycrcb = (255, 133, 125) \<rparr>"
        and box = "(295, 215, 345, 265)"]
      olive_calibration olive_accepted
    by simp
  show "region_stats sample_cv (auto_region olive_frame 320 240 50) =
     \<lparr> peak_hue = 30, std_dev_hsv = 0, cr_mean = 129, cb_mean = 121, std_dev_crcb = 4 \<rparr>"
    by (simp add: olive_frame_def auto_uniform olive_stats)
qed

text \<open>
  Claim C2, as stated, at a frame of uniform grey: the committed lower Cr bound is 133
  and the upper one 128, the lower Cb bound is 128 and the upper one 127.
\<close>

lemma gray_stats:
  "region_stats sample_cv (replicate 25 (replicate 25 (128, 128, 128))) =
     \<lparr> peak_hue = 0, std_dev_hsv = 0, cr_mean = 128, cb_mean = 128, std_dev_crcb = 0 \<rparr>"
  by (subst region_stats_uniform [where h = 0 and s = 0 and v = 128 and y = 128 and cr = 128 and cb = 128])
     (simp_all add: sample_cv_def sample_hsv_def sample_ycrcb_def round_div_def Let_def)


theorem calibrate_gray_counterexample:
  "calibrate_skin_color sample_cv gray_frame =
     Inr (\<lparr> lower_skin_hsv = (0, 30, 60), upper_skin_hsv = (0, 255, 255),
            lower_skin_ycrcb = (0, 133, 128), upper_skin_ycrcb = (255, 128, 127) \<rparr>, gray_frame)
   \<and> \<not> (133::u8) \<le> 128 \<and> \<not> (128::u8) \<le> 127"
  unfolding calibrate_skin_color_def Let_def gray_frame_def center_uniform gray_stats
  by (simp add: empty_region_def width_def new_ranges_def hsv_bounds_def ycrcb_bounds_def np_uint8_def)

subsection \<open>The drift test\<close>

text \<open>
  Claim C3 at a failing input. The ranges are committed by the manual calibration on a
  frame of skin colour; the automatic calibration then samples a frame whose peak hue and
  chroma means are 0, 4 and 1 away from the midpoints of the committed ranges, and whose
  candidate ranges differ from the committed ones. The stored Cr bounds 133 and 173 add
  up to 50 modulo 256, the test compares the sampled Cr mean 157 with 25, and the
  update is rejected, under either promotion rule.
\<close>

lemma skin_region': "auto_region skin_frame' 320 240 50 = replicate 50 (replicate 50 (120, 150, 204))"
  by (simp add: auto_region_def sampled_box_def skin_frame'_def width_def crop_uniform py_index_def)

lemma skin_box': "sampled_box skin_frame' 320 240 50 = (295, 215, 345, 265)"
  by (simp add: sampled_box_def skin_frame'_def width_def)

theorem auto_calibrate_rejects_without_drift:
  "calibrate_skin_color sample_cv skin_frame = Inr (skin_ranges0, skin_frame) \<and>
   \<not> midpoint_drift skin_ranges0 (region_stats sample_cv (auto_region skin_frame' 320 240 50)) \<and>
   new_ranges (region_stats sample_cv (auto_region skin_frame' 320 240 50)) \<noteq> skin_ranges0 \<and>
   auto_calibrate_skin_color sample_cv (Some skin_ranges0) skin_frame' 320 240 50
     = Inr (Some skin_ranges0, (295, 215, 345, 265)) \<and>
   auto_calibrate_skin_color (sample_cv \<lparr> np_weak_promotion := False \<rparr>)
       (Some skin_ranges0) skin_frame' 320 240 50
     = Inr (Some skin_ranges0, (295, 215, 345, 265))"
proof (intro conjI)
  show "calibrate_skin_color sample_cv skin_frame = Inr (skin_ranges0, skin_frame)"
    by (rule skin_calibration)
  show "\<not> midpoint_drift skin_ranges0 (region_stats sample_cv (auto_region skin_frame' 320 240 50))"
    unfolding skin_region' skin_stats'
    by (simp add: midpoint_drift_def skin_ranges0_def ints_def)
  show "new_ranges (region_stats sample_cv (auto_region skin_frame' 320 240 50)) \<noteq> skin_ranges0"
    unfolding skin_region' skin_stats'
    by (simp add: new_ranges_def hsv_bounds_def ycrcb_bounds_def np_uint8_def skin_ranges0_def)
  have stats_eq: "region_stats (sample_cv \<lparr> np_weak_promotion := False \<rparr>) r = region_stats sample_cv r" for r
    by (simp add: region_stats_def)
  show "auto_calibrate_skin_color sample_cv (Some skin_ranges0) skin_frame' 320 240 50
     = Inr (Some skin_ranges0, (295, 215, 345, 265))"
    unfolding auto_calibrate_skin_color_def Let_def skin_region' skin_stats' skin_box'
    by (simp add: empty_region_def width_def drift_rejected_def scalar_diff_def skin_ranges0_def
        sample_cv_def)
  show "auto_calibrate_skin_color (sample_cv \<lparr> np_weak_promotion := False \<rparr>)
       (Some skin_ranges0) skin_frame' 320 240 50
     = Inr (Some skin_ranges0, (295, 215, 345, 265))"
    unfolding auto_calibrate_skin_color_def Let_def skin_region' stats_eq skin_stats' skin_box'
    by (simp add: empty_region_def width_def drift_rejected_def scalar_diff_def skin_ranges0_def
        sample_cv_def)
qed

subsection \<open>The fused colour mask\<close>

lemma map2_map_map: "map2 f (map g xs) (map h xs) = map (\<lambda>x. f (g x) (h x)) xs"
  by (induction xs) simp_all

lemma map2_nested:
  "map2 (map2 f) (map (map g) xss) (map (map h) xss) = map (map (\<lambda>x. f (g x) (h x))) xss"
  by (induction xss) (simp_all add: map2_map_map)

lemma fuse_pixel:
  "(if (50 :: u8) < saturate_u8 (round (u8_real (if P then 255 else 0) * 0.40 +
        u8_real (if Q then 255 else 0) * 0.60 + 0)) then 255 else 0)
     = (if P \<or> Q then 255 else (0 :: u8))"
  by (simp add: saturate_u8_def u8_real_def)

lemma addWeighted_maps:
  "addWeighted (map (map g) xss) alpha (map (map h) xss) beta gamma =
     map (map (\<lambda>p. saturate_u8 (round (u8_real (g p) * alpha + u8_real (h p) * beta + gamma)))) xss"
  unfolding addWeighted_def by (rule map2_nested)

lemma skin_color_mask_eq:
  "skin_color_mask cv rg frame_roi =
     map (map (\<lambda>p. if in_range (cvtColor_BGR2HSV cv p) (lower_skin_hsv rg) (upper_skin_hsv rg) \<or>
                      in_range (cvtColor_BGR2YCrCb cv p) (lower_skin_ycrcb rg) (upper_skin_ycrcb rg)
                   then 255 else 0)) frame_roi"
  unfolding skin_color_mask_def skin_masks_def Let_def prod.case inRange_def map_map comp_def
    addWeighted_maps threshold_BINARY_def fuse_pixel
  by (rule refl)

text \<open>
  Claim C6, amended. The fused mask is the blend of the HSV mask with weight 0.40 and the
  YCrCb mask with weight 0.60, binarized at 50: a pixel is foreground exactly when its
  blended value exceeds 50, which is exactly when it lies in the HSV range or in the
  YCrCb range.
\<close>

theorem skin_color_mask_union:
  "skin_color_mask cv rg frame_roi =
     map (map (\<lambda>p. if in_range (cvtColor_BGR2HSV cv p) (lower_skin_hsv rg) (upper_skin_hsv rg) \<or>
                      in_range (cvtColor_BGR2YCrCb cv p) (lower_skin_ycrcb rg) (upper_skin_ycrcb rg)
                   then 255 else 0)) frame_roi"
  by (rule skin_color_mask_eq)

theorem skin_color_mask_union_witness:
  "skin_color_mask sample_cv skin_ranges0 [[(120, 150, 200), (128, 128, 128)]] = [[255, 0]]"
  using skin_color_mask_union [of sample_cv skin_ranges0 "[[(120, 150, 200), (128, 128, 128)]]"]
  by (simp add: sample_cv_def sample_hsv_def sample_ycrcb_def round_div_def skin_ranges0_def
      in_range_def)

text \<open>
  Claim C6, as stated, at a pixel inside the HSV range and outside the YCrCb range: its
  blended value is 102, below the midpoint, and the pixel is foreground.
\<close>

theorem skin_color_mask_midpoint_counterexample:
  "skin_color_mask sample_cv skin_ranges0 [[(40, 114, 240)]] = [[255]] \<and>
   midpoint_fused_mask sample_cv skin_ranges0 [[(40, 114, 240)]] = [[0]]"
  by (simp add: skin_color_mask_def midpoint_fused_mask_def skin_masks_def Let_def inRange_def
      addWeighted_def threshold_BINARY_def sample_cv_def sample_hsv_def sample_ycrcb_def
      round_div_def skin_ranges0_def in_range_def saturate_u8_def u8_real_def)

subsection \<open>Frames without a hand\<close>

text \<open>
  Claim C4, amended. On a frame in which no hand candidate is found, \<^verbatim>\<open>detect_hand\<close>
  returns no fingertip and leaves the tracker state as it was: the filter is not advanced
  and the smoothed centre keeps its previous value. The predicted, uncorrected position is
  what \<^verbatim>\<open>update_kalman\<close> returns when it is called without a measurement.
\<close>

theorem no_hand_keeps_smoother:
  assumes "skin st = Some rg" "hand_candidate cv rg frame_roi = Inr None"
  shows "(\<exists>res. detect_hand cv st frame_roi offset_x offset_y = Inr (res, st) \<and> fingertips res = []) \<and>
    update_kalman kf None None
      = (kf_predict kf, (statePre (kf_predict kf) ! 0, statePre (kf_predict kf) ! 1))"
proof
  obtain cmask emask final_mask where hm: "hand_masks cv rg frame_roi = (cmask, emask, final_mask)"
    by (cases "hand_masks cv rg frame_roi")
  show "\<exists>res. detect_hand cv st frame_roi offset_x offset_y = Inr (res, st) \<and> fingertips res = []"
    using assms hm
    by (auto simp: detect_hand_def hand_candidate_def hand_stage_def Let_def
        split: if_splits prod.splits sum.splits)
  show "update_kalman kf None None
      = (kf_predict kf, (statePre (kf_predict kf) ! 0, statePre (kf_predict kf) ! 1))"
    by (simp add: update_kalman_def Let_def)
qed

text \<open>
  Claim C5, amended. When the final mask has no contour or its largest contour has an
  area of at most 1000, the frame yields no hand: no fingertip is returned and the tracker
  state is not modified. When the area exceeds 1000, the result is that of the stage which
  cuts the forearm, measures the centre and extracts the fingertips of that contour.
\<close>

theorem detect_hand_area_threshold:
  assumes "skin st = Some rg" "hand_masks cv rg frame_roi = (cmask, emask, final_mask)"
  shows "(final_contours cv rg frame_roi = [] \<or>
      contourArea (largest_contour (final_contours cv rg frame_roi)) \<le> 1000 \<longrightarrow>
        (\<exists>res. detect_hand cv st frame_roi offset_x offset_y = Inr (res, st) \<and> fingertips res = [])) \<and>
    (final_contours cv rg frame_roi \<noteq> [] \<and>
      contourArea (largest_contour (final_contours cv rg frame_roi)) > 1000 \<longrightarrow>
        detect_hand cv st frame_roi offset_x offset_y =
          hand_stage cv st offset_x offset_y cmask emask
            (drawContours cv (zeros_like final_mask) (largest_contour (final_contours cv rg frame_roi)))
            (largest_contour (final_contours cv rg frame_roi)))"
  using assms by (auto simp: detect_hand_def Let_def)

subsection \<open>Evaluation on the sample shapes\<close>

lemma map_map_id: "(\<And>v. v \<in> set (concat m) \<Longrightarrow> f v = v) \<Longrightarrow> map (map f) m = m"
  by (induction m) (auto simp: map_idI)

lemma map2_nested_left:
  "map2 (map2 f) xss (map (map h) xss) = map (map (\<lambda>x. f x (h x))) xss"
  using map2_nested [of f "\<lambda>x. x" xss h] by simp

lemma shape_cv_simps [simp]:
  "cvtColor_BGR2HSV (shape_cv m c) = sample_hsv"
  "cvtColor_BGR2YCrCb (shape_cv m c) = sample_ycrcb"
  "cvtColor_BGR2GRAY (shape_cv m c) = sample_gray"
  "Canny (shape_cv m c) = (\<lambda>gray lo hi. zeros_like gray)"
  "Sobel_magnitude (shape_cv m c) = zeros_like"
  "morphologyEx_OPEN (shape_cv m c) = (\<lambda>m n. m)"
  "morphologyEx_CLOSE (shape_cv m c) = (\<lambda>m n. m)"
  "line (shape_cv m c) = (\<lambda>m p q. m)"
  "rectangle (shape_cv m c) = (\<lambda>m p q. m)"
  "detectMultiScale (shape_cv m c) = (\<lambda>gray. [])"
  "findContours (shape_cv m c) = (\<lambda>m'. if m' = m then [c] else [])"
  "drawContours (shape_cv m c) = (\<lambda>m' c'. if c' = c then m else m')"
  "convexHull (shape_cv m c) = (\<lambda>c. [0..<length c])"
  "convexityDefects (shape_cv m c) = (\<lambda>c hull_indices. None)"
  "moments (shape_cv m c) = polygon_moments"
  by (simp_all add: shape_cv_def sample_cv_def)

lemma color_mask_shape:
  assumes "binary_mask m"
  shows "skin_color_mask (shape_cv m c) skin_ranges0 (shape_frame m) = m"
proof -
  have px: "(if in_range (sample_hsv (if v = 255 then (120, 150, 200) else (128, 128, 128)))
               (lower_skin_hsv skin_ranges0) (upper_skin_hsv skin_ranges0) \<or>
             in_range (sample_ycrcb (if v = 255 then (120, 150, 200) else (128, 128, 128)))
               (lower_skin_ycrcb skin_ranges0) (upper_skin_ycrcb skin_ranges0)
            then 255 else 0) = v" if "v = 0 \<or> v = 255" for v :: u8
    using that
    by (auto simp: sample_hsv_def sample_ycrcb_def round_div_def skin_ranges0_def in_range_def)
  show ?thesis
    unfolding skin_color_mask_eq shape_frame_def map_map comp_def shape_cv_simps
  proof (rule map_map_id)
    fix v :: u8
    assume "v \<in> set (concat m)"
    then have "v = 0 \<or> v = 255"
      using assms by (auto simp: binary_mask_def)
    then show "(if in_range (sample_hsv (if v = 255 then (120, 150, 200) else (128, 128, 128)))
               (lower_skin_hsv skin_ranges0) (upper_skin_hsv skin_ranges0) \<or>
             in_range (sample_ycrcb (if v = 255 then (120, 150, 200) else (128, 128, 128)))
               (lower_skin_ycrcb skin_ranges0) (upper_skin_ycrcb skin_ranges0)
            then 255 else 0) = v"
      by (rule px)
  qed
qed

lemma zeros_ne:
  assumes "\<exists>row \<in> set m. 255 \<in> set row"
  shows "map (map (\<lambda>v. 0::u8)) m \<noteq> m"
proof
  assume eq: "map (map (\<lambda>v. 0::u8)) m = m"
  from assms obtain row where row: "row \<in> set m" "255 \<in> set row" by blast
  have "row \<in> set (map (map (\<lambda>v. 0::u8)) m)"
    using row(1) eq by simp
  then have "\<forall>v \<in> set row. v = 0"
    by auto
  with row(2) show False by auto
qed

lemma zeros_like_map [simp]: "zeros_like (map (map f) m) = zeros_like m"
  by (simp add: zeros_like_def)

lemma zeros_like_idem [simp]: "zeros_like (zeros_like m) = zeros_like m"
  by (simp add: zeros_like_def)

lemma edge_zero:
  "threshold_BINARY (addWeighted (zeros_like m) a (zeros_like m) b 0) 50 255 = zeros_like m"
  unfolding zeros_like_def addWeighted_maps threshold_BINARY_def map_map comp_def
  by (simp add: saturate_u8_def u8_real_def)

lemma hand_masks_shape:
  assumes "binary_mask m" "\<exists>row \<in> set m. 255 \<in> set row"
  shows "hand_masks (shape_cv m c) skin_ranges0 (shape_frame m) = (m, zeros_like m, m)"
proof -
  have ne: "zeros_like m \<noteq> m"
    unfolding zeros_like_def using assms(2) by (rule zeros_ne)
  have or0: "bitwise_or m (zeros_like m) = m"
    unfolding bitwise_or_def zeros_like_def map2_nested_left by (rule map_map_id) simp
  have "(255::u8) = - 1"
    by simp
  then have and255: "v AND 255 = v" for v :: u8
    by (simp only: and.right_neutral)
  have and1: "bitwise_and m (map (map (\<lambda>v. 255)) m) = m"
    unfolding bitwise_and_def map2_nested_left
    by (rule map_map_id) (rule and255)
  have gray: "zeros_like (map (map sample_gray) (shape_frame m)) = zeros_like m"
    by (simp add: shape_frame_def)
  show ?thesis
    unfolding hand_masks_def Let_def color_mask_shape [OF assms(1)] shape_cv_simps gray edge_zero
    by (simp add: ne or0 and1 split: prod.splits)
qed

lemma row_widths_pencil: "row_widths pencil_mask 0 0 11 110 =
    replicate 105 11 @ [9, 7, 5, 3, 1]"
  by code_simp

lemma pencil_area: "contourArea pencil = 1065"
  by (simp add: contourArea_def pencil_def)

lemma pencil_box: "boundingRect pencil = (0, 0, 11, 110)"
  by (simp add: boundingRect_def pencil_def)

lemma pencil_binary: "binary_mask pencil_mask"
  unfolding binary_mask_def by code_simp

lemma pencil_has_255: "\<exists>row \<in> set pencil_mask. 255 \<in> set row"
  by code_simp

lemma pencil_inside: "box_inside pencil_mask 0 0 11 110"
  by code_simp

lemma largest_single [simp]: "largest_contour [c] = c"
  by (simp add: largest_contour_def py_max_by_def)

lemma scan_replicate:
  "0 < w \<Longrightarrow> scan_rows (1/2) 2 (replicate n w @ rest) i 0 w
     = scan_rows (1/2) 2 rest (i + n) 0 w"
  by (induction n arbitrary: i) simp_all

lemma pencil_no_cut: "find_cut (1/2) 2 (row_widths pencil_mask 0 0 11 110) = None"
proof -
  have "find_cut (1/2) 2 (replicate 105 11 @ [9, 7, 5, 3, 1])
      = scan_rows (1/2) 2 (replicate 104 11 @ [9, 7, 5, 3, 1]) 1 0 11"
    by (simp add: find_cut_def numeral_eq_Suc)
  also have "\<dots> = scan_rows (1/2) 2 [9, 7, 5, 3, 1] (1 + 104) 0 11"
    by (rule scan_replicate) simp
  also have "\<dots> = None"
    by simp
  finally show ?thesis
    by (simp add: row_widths_pencil)
qed

lemma pencil_cut:
  "cut_forearm_automatically pencil_mask 0 0 11 110 0.5 2 = Inr (pencil_mask, False)"
  using pencil_no_cut pencil_inside by (simp add: cut_forearm_automatically_def)

lemma detect_pencil:
  assumes "skin st = Some skin_ranges0"
  shows "detect_hand (shape_cv pencil_mask pencil) st (shape_frame pencil_mask) ox oy =
     Inr (\<lparr> color_mask = pencil_mask, edge_full_mask = zeros_like pencil_mask,
            biggest_mask = pencil_mask, fingertips = [], max_contour = Some pencil \<rparr>,
          track st (11 / 2 + real_of_int ox) (55 + real_of_int oy))"
proof -
  note hm = hand_masks_shape [OF pencil_binary pencil_has_255, of pencil]
  have fc: "final_contours (shape_cv pencil_mask pencil) skin_ranges0 (shape_frame pencil_mask) = [pencil]"
    by (simp add: final_contours_def hm)
  have ft: "fingertips_of (shape_cv pencil_mask pencil) pencil (0, 0, 11, 110) = Inr []"
    by (simp add: fingertips_of_def Let_def pencil_def)
  have hs: "hand_stage (shape_cv pencil_mask pencil) st ox oy pencil_mask (zeros_like pencil_mask)
      pencil_mask pencil =
     Inr (\<lparr> color_mask = pencil_mask, edge_full_mask = zeros_like pencil_mask,
            biggest_mask = pencil_mask, fingertips = [], max_contour = Some pencil \<rparr>,
          track st (11 / 2 + real_of_int ox) (55 + real_of_int oy))"
    unfolding hand_stage_def pencil_box prod.case nat_0 nat_numeral pencil_cut sum.case Let_def
      shape_cv_simps
    by (simp add: pencil_area pencil_box ft)
  show ?thesis
    unfolding detect_hand_def assms option.case hm prod.case fc Let_def
    by (simp add: pencil_area hs)
qed


lemma hypot_less_hypot [simp]:
  "hypot a b < hypot c d \<longleftrightarrow> a * a + b * b < c * c + d * d"
  unfolding hypot_def real_sqrt_less_iff of_int_less_iff by (rule refl)

lemma hypot_pos [simp]: "0 < hypot a b \<longleftrightarrow> a \<noteq> 0 \<or> b \<noteq> 0"
  unfolding hypot_def real_sqrt_gt_0_iff of_int_0_less_iff by (rule sum_squares_gt_zero_iff)






subsection \<open>The tracker on the sample frames\<close>

lemmas kf_eval = kf_predict_def kf_correct_def init_kalman_filter_def
     set_kalman_position_def mat_vec_def mat_mul_def mat_add_def mat_sub_def mat_inv2_def eye_def scale_def Let_def
     upt_conv_Cons

lemma predict_seed:
  "kf_predict (set_kalman_position init_kalman_filter (11 / 2) 55) =
     init_kalman_filter \<lparr> statePre := [11 / 2, 55, 0, 0], statePost := [11 / 2, 55, 0, 0],
       errorCovPre := [[2001 / 1000, 0, 1, 0], [0, 2001 / 1000, 0, 1], [1, 0, 1001 / 1000, 0],
                       [0, 1, 0, 1001 / 1000]],
       errorCovPost := [[2001 / 1000, 0, 1, 0], [0, 2001 / 1000, 0, 1], [1, 0, 1001 / 1000, 0],
                        [0, 1, 0, 1001 / 1000]] \<rparr>"
  by (simp add: kf_eval)

lemma filter_seeded_eq:
  "filter_seeded =
     init_kalman_filter \<lparr> statePre := [11 / 2, 55, 0, 0], statePost := [11 / 2, 55, 0, 0],
       errorCovPre := [[2001 / 1000, 0, 1, 0], [0, 2001 / 1000, 0, 1], [1, 0, 1001 / 1000, 0],
                       [0, 1, 0, 1001 / 1000]],
       errorCovPost := [[2001 / 201100, 0, 10 / 2011, 0], [0, 2001 / 201100, 0, 10 / 2011],
                        [10 / 2011, 0, 1013011 / 2011000, 0],
                        [0, 10 / 2011, 0, 1013011 / 2011000]] \<rparr>"
  unfolding filter_seeded_def predict_seed
  by (simp add: kf_eval)


lemma predict_seeded:
  "kf_predict filter_seeded =
     init_kalman_filter \<lparr> statePre := [11 / 2, 55, 0, 0], statePost := [11 / 2, 55, 0, 0],
       errorCovPre := [[131879 / 251375, 0, 1023011 / 2011000, 0],
                       [0, 131879 / 251375, 0, 1023011 / 2011000],
                       [1023011 / 2011000, 0, 507511 / 1005500, 0],
                       [0, 1023011 / 2011000, 0, 507511 / 1005500]],
       errorCovPost := [[131879 / 251375, 0, 1023011 / 2011000, 0],
                       [0, 131879 / 251375, 0, 1023011 / 2011000],
                       [1023011 / 2011000, 0, 507511 / 1005500, 0],
                       [0, 1023011 / 2011000, 0, 507511 / 1005500]] \<rparr>"
  unfolding filter_seeded_eq
  by (simp add: kf_eval)

lemma filter_moved_state:
  "statePost filter_moved = [16463601 / 1075142, 55, 5115055 / 537571, 0]"
  "transitionMatrix filter_moved = [[1, 0, 1, 0], [0, 1, 0, 1], [0, 0, 1, 0], [0, 0, 0, 1]]"
  unfolding filter_moved_def predict_seeded
  by (simp_all add: kf_eval)

lemma predict_moved:
  "statePre (kf_predict filter_moved) = [26693711 / 1075142, 55, 5115055 / 537571, 0]"
  by (simp add: kf_predict_def Let_def filter_moved_state mat_vec_def)


lemma track_first: "track st0 (11 / 2) 55 = st_one"
proof -
  have "statePost filter_seeded = [11 / 2, 55, 0, 0]"
    unfolding filter_seeded_eq by simp
  then show ?thesis
    by (simp add: track_def st0_def st_one_def update_kalman_def Let_def
        filter_seeded_def [symmetric])
qed

lemma track_second: "track st_one (31 / 2) 55 = st_two"
  by (simp add: track_def st0_def st_one_def st_two_def update_kalman_def Let_def
      filter_moved_def [symmetric] filter_moved_state)

lemma track_center: "smoothed_center (track st x y) \<noteq> None"
  by (simp add: track_def Let_def split: prod.splits)

lemma no_contours_unchanged:
  assumes "skin st = Some rg" "final_contours cv rg frame_roi = []"
  shows "map_sum id snd (detect_hand cv st frame_roi ox oy) = Inr st"
  using assms by (simp add: detect_hand_def Let_def split: prod.splits)

lemma sample_no_contours: "final_contours sample_cv rg frame_roi = []"
  by (simp add: final_contours_def sample_cv_def)

lemma square_binary: "binary_mask square_mask"
  by (simp add: binary_mask_def square_mask_def)

lemma square_has_255: "\<exists>row \<in> set square_mask. 255 \<in> set row"
  by (simp add: square_mask_def)

lemma square_area: "contourArea square30 = 841"
  by (simp add: contourArea_def square30_def)

lemma square_box: "boundingRect square30 = (0, 0, 30, 30)"
  by (simp add: boundingRect_def square30_def)

lemma square_widths: "row_widths square_mask 0 0 30 30 = replicate 30 30"
  by code_simp

lemma square_inside: "box_inside square_mask 0 0 30 30"
  by code_simp

lemma square_no_cut: "find_cut (1/2) 2 (row_widths square_mask 0 0 30 30) = None"
proof -
  have "find_cut (1/2) 2 (replicate 30 30) = scan_rows (1/2) 2 (replicate 29 30 @ []) 1 0 30"
    by (simp add: find_cut_def numeral_eq_Suc)
  also have "\<dots> = scan_rows (1/2) 2 [] (1 + 29) 0 30"
    by (rule scan_replicate) simp
  finally show ?thesis
    by (simp add: square_widths)
qed

lemma square_cut:
  "cut_forearm_automatically square_mask 0 0 30 30 0.5 2 = Inr (square_mask, False)"
  using square_no_cut square_inside by (simp add: cut_forearm_automatically_def)

lemma detect_square:
  assumes "skin st = Some skin_ranges0"
  shows "detect_hand (shape_cv square_mask square30) st (shape_frame square_mask) ox oy =
     Inr (\<lparr> color_mask = square_mask, edge_full_mask = zeros_like square_mask,
            biggest_mask = square_mask, fingertips = [], max_contour = Some square30 \<rparr>, st)"
proof -
  note hm = hand_masks_shape [OF square_binary square_has_255, of square30]
  have fc: "final_contours (shape_cv square_mask square30) skin_ranges0 (shape_frame square_mask)
      = [square30]"
    by (simp add: final_contours_def hm)
  show ?thesis
    unfolding detect_hand_def assms option.case hm prod.case fc Let_def
    by (simp add: square_area)
qed

lemma stage_square:
  "hand_stage (shape_cv square_mask square30) st ox oy square_mask (zeros_like square_mask)
      square_mask square30 =
     Inr (\<lparr> color_mask = square_mask, edge_full_mask = zeros_like square_mask,
            biggest_mask = square_mask, fingertips = [], max_contour = Some square30 \<rparr>,
          track st (15 + real_of_int ox) (15 + real_of_int oy))"
proof -
  have ft: "fingertips_of (shape_cv square_mask square30) square30 (0, 0, 30, 30) = Inr []"
    by (simp add: fingertips_of_def Let_def square30_def)
  show ?thesis
    unfolding hand_stage_def square_box prod.case nat_0 nat_numeral square_cut sum.case Let_def
      shape_cv_simps
    by (simp add: square_area square_box ft)
qed

lemma final_contours_shape:
  "binary_mask m \<Longrightarrow> \<exists>row \<in> set m. 255 \<in> set row \<Longrightarrow>
   final_contours (shape_cv m c) skin_ranges0 (shape_frame m) = [c]"
  by (simp add: final_contours_def hand_masks_shape)

text \<open>Claim C4, amended, on a frame without a contour after two frames with the pencil.\<close>

theorem no_hand_keeps_smoother_witness:
  "(\<exists>res. detect_hand sample_cv st_two gray_frame 10 0 = Inr (res, st_two) \<and> fingertips res = []) \<and>
   update_kalman filter_moved None None
     = (kf_predict filter_moved,
        (statePre (kf_predict filter_moved) ! 0, statePre (kf_predict filter_moved) ! 1))"
proof -
  have sk: "skin st_two = Some skin_ranges0"
    by (simp add: st0_def st_two_def)
  have hc: "hand_candidate sample_cv skin_ranges0 gray_frame = Inr None"
    by (simp add: hand_candidate_def sample_no_contours)
  show ?thesis
    using no_hand_keeps_smoother [OF sk hc, of 10 0 filter_moved] .
qed

text \<open>
  Claim C4, as stated, after the pencil has been seen at the offsets 0 and 10 and is
  then absent: the frame without a hand leaves the smoothed centre at about (15.31, 55),
  where the second frame put it, while the predicted position of the filter is about
  (24.83, 55).
\<close>

theorem coasting_counterexample:
  "map_sum id snd (detect_hand (shape_cv pencil_mask pencil) st0 (shape_frame pencil_mask) 0 0)
     = Inr st_one \<and>
   map_sum id snd (detect_hand (shape_cv pencil_mask pencil) st_one (shape_frame pencil_mask) 10 0)
     = Inr st_two \<and>
   hand_candidate sample_cv skin_ranges0 gray_frame = Inr None \<and>
   map_sum id snd (detect_hand sample_cv st_two gray_frame 10 0) = Inr st_two \<and>
   smoothed_center st_two = Some (16463601 / 1075142, 55) \<and>
   snd (update_kalman (kalman st_two) None None) = (26693711 / 1075142, 55) \<and>
   (16463601 / 1075142 :: real) \<noteq> 26693711 / 1075142"
proof -
  have sk: "skin st0 = Some skin_ranges0" "skin st_one = Some skin_ranges0"
    "skin st_two = Some skin_ranges0"
    by (simp_all add: st0_def st_one_def st_two_def)
  have f1: "map_sum id snd (detect_hand (shape_cv pencil_mask pencil) st0 (shape_frame pencil_mask) 0 0)
     = Inr st_one"
    using detect_pencil [OF sk(1), of 0 0] track_first by simp
  have f2: "map_sum id snd (detect_hand (shape_cv pencil_mask pencil) st_one (shape_frame pencil_mask) 10 0)
     = Inr st_two"
    using detect_pencil [OF sk(2), of 10 0] track_second by simp
  have f3: "map_sum id snd (detect_hand sample_cv st_two gray_frame 10 0) = Inr st_two"
    using sk(3) sample_no_contours by (rule no_contours_unchanged)
  have hc: "hand_candidate sample_cv skin_ranges0 gray_frame = Inr None"
    by (simp add: hand_candidate_def sample_no_contours)
  have c: "smoothed_center st_two = Some (16463601 / 1075142, 55)"
    "kalman st_two = filter_moved"
    by (simp_all add: st_two_def)
  have p: "snd (update_kalman (kalman st_two) None None) = (26693711 / 1075142, 55)"
    unfolding c(2) by (simp add: update_kalman_def Let_def predict_moved)
  show ?thesis
    using f1 f2 f3 hc c(1) p by simp
qed

text \<open>Claim C5, amended, on the square (area 841) and on the pencil (area 1065).\<close>

theorem detect_hand_area_threshold_witness:
  "(\<exists>res. detect_hand (shape_cv square_mask square30) st0 (shape_frame square_mask) 0 0
            = Inr (res, st0) \<and> fingertips res = []) \<and>
   detect_hand (shape_cv pencil_mask pencil) st0 (shape_frame pencil_mask) 0 0 =
     hand_stage (shape_cv pencil_mask pencil) st0 0 0 pencil_mask (zeros_like pencil_mask)
       (drawContours (shape_cv pencil_mask pencil) (zeros_like pencil_mask) pencil) pencil"
proof
  have sk: "skin st0 = Some skin_ranges0"
    by (simp add: st0_def)
  note sq = detect_hand_area_threshold [OF sk hand_masks_shape [OF square_binary square_has_255],
      of square30 0 0]
  show "\<exists>res. detect_hand (shape_cv square_mask square30) st0 (shape_frame square_mask) 0 0
            = Inr (res, st0) \<and> fingertips res = []"
    using sq by (simp add: final_contours_shape square_binary square_has_255 square_area)
  note pe = detect_hand_area_threshold [OF sk hand_masks_shape [OF pencil_binary pencil_has_255],
      of pencil 0 0]
  show "detect_hand (shape_cv pencil_mask pencil) st0 (shape_frame pencil_mask) 0 0 =
     hand_stage (shape_cv pencil_mask pencil) st0 0 0 pencil_mask (zeros_like pencil_mask)
       (drawContours (shape_cv pencil_mask pencil) (zeros_like pencil_mask) pencil) pencil"
    using pe by (simp add: final_contours_shape pencil_binary pencil_has_255 pencil_area)
qed

text \<open>
  Claim C5, as stated, at the square of area 841: \<^verbatim>\<open>detect_hand\<close> returns no fingertip and
  the unchanged tracker state, while the fingertip stage on this contour would seed the
  smoother.
\<close>

theorem small_contour_counterexample:
  "contourArea square30 = 841 \<and> (500 :: real) < 841 \<and>
   detect_hand (shape_cv square_mask square30) st0 (shape_frame square_mask) 0 0 =
     Inr (\<lparr> color_mask = square_mask, edge_full_mask = zeros_like square_mask,
            biggest_mask = square_mask, fingertips = [], max_contour = Some square30 \<rparr>, st0) \<and>
   hand_stage (shape_cv square_mask square30) st0 0 0 square_mask (zeros_like square_mask)
      square_mask square30 =
     Inr (\<lparr> color_mask = square_mask, edge_full_mask = zeros_like square_mask,
            biggest_mask = square_mask, fingertips = [], max_contour = Some square30 \<rparr>,
          track st0 15 15) \<and>
   smoothed_center st0 = None \<and> smoothed_center (track st0 15 15) \<noteq> None"
proof -
  have sk: "skin st0 = Some skin_ranges0" and sc: "smoothed_center st0 = None"
    by (simp_all add: st0_def)
  show ?thesis
    using detect_square [OF sk, of 0 0] stage_square [of st0 0 0] track_center [of st0 15 15] sc
    by (simp add: square_area)
qed

end
